theory Spec2Isabelle
  imports Complex_Main
begin

section \<open>Python strings\<close>

text \<open>
  A Python \<open>str\<close> is a sequence of Unicode code points; \<open>len\<close> counts code points.
  A string is therefore a list of code points (natural numbers), and an ASCII literal
  is written \<open>cp ''abc''\<close>.
\<close>

type_synonym pystr = "nat list"

definition cp :: "string \<Rightarrow> pystr" where
  "cp s = map of_char s"

text \<open>
  The character classes of \<open>str.strip\<close>, \<open>str.isnumeric\<close>, \<open>str.lower\<close> and of the
  regular expressions \<open>\<^verbatim>\<open>\s\<close>\<close> and \<open>\<^verbatim>\<open>\d\<close>\<close> come from the Unicode database of the Python
  runtime, which is not part of the repository. They are a parameter of the model.
  In the runtime's database no code point is both whitespace and a decimal digit, and
  none of \<open>. / + |\<close> and the line feed is either.
\<close>

record unicode =
  u_isspace :: "nat \<Rightarrow> bool"
  u_isdecimal :: "nat \<Rightarrow> bool"
  u_isnumeric :: "nat \<Rightarrow> bool"
  u_lower :: "pystr \<Rightarrow> pystr"

text \<open>
  The database restricted to ASCII: exact on every text of code points below 128,
  which is all it is used for (the evaluation of the model at ASCII texts).
\<close>

definition ascii_lower :: "nat \<Rightarrow> nat" where
  "ascii_lower c = (if 65 \<le> c \<and> c \<le> 90 then c + 32 else c)"

definition ascii :: unicode where
  "ascii = \<lparr> u_isspace = (\<lambda>c. (9 \<le> c \<and> c \<le> 13) \<or> (28 \<le> c \<and> c \<le> 32)),
             u_isdecimal = (\<lambda>c. 48 \<le> c \<and> c \<le> 57),
             u_isnumeric = (\<lambda>c. 48 \<le> c \<and> c \<le> 57),
             u_lower = map ascii_lower \<rparr>"

text \<open>\<open>s.split(sep)\<close> for a separator of one code point: never an empty list.\<close>

fun split :: "nat \<Rightarrow> pystr \<Rightarrow> pystr list" where
  "split sep [] = [[]]"
| "split sep (c # cs) =
     (if c = sep then [] # split sep cs
      else (case split sep cs of [] \<Rightarrow> [[c]] | w # ws \<Rightarrow> (c # w) # ws))"

text \<open>\<open>s.replace(a, b)\<close> for \<open>a\<close> and \<open>b\<close> of one code point each.\<close>

definition replace :: "nat \<Rightarrow> nat \<Rightarrow> pystr \<Rightarrow> pystr" where
  "replace a b s = map (\<lambda>c. if c = a then b else c) s"

text \<open>\<open>s.strip()\<close>: whitespace removed at both ends.\<close>

definition strip :: "unicode \<Rightarrow> pystr \<Rightarrow> pystr" where
  "strip U s = rev (dropWhile (u_isspace U) (rev (dropWhile (u_isspace U) s)))"

definition startswith :: "pystr \<Rightarrow> pystr \<Rightarrow> bool" where
  "startswith s p = (take (length p) s = p)"

text \<open>\<open>sub in s\<close>: \<open>sub\<close> occurs in \<open>s\<close> as a substring.\<close>

fun contains :: "pystr \<Rightarrow> pystr \<Rightarrow> bool" where
  "contains sub [] = (sub = [])"
| "contains sub (c # cs) = (startswith (c # cs) sub \<or> contains sub cs)"

text \<open>\<open>s.isnumeric()\<close>: at least one character, and all of them numeric.\<close>

definition isnumeric :: "unicode \<Rightarrow> pystr \<Rightarrow> bool" where
  "isnumeric U s = (s \<noteq> [] \<and> list_all (u_isnumeric U) s)"

text \<open>
  \<open>list(dict.fromkeys(xs))\<close>: the keys in the order of their first insertion; a key
  that is already there keeps its place. Keys are compared with \<open>==\<close>.
\<close>

fun fromkeys :: "'a list \<Rightarrow> 'a list \<Rightarrow> 'a list" where
  "fromkeys d [] = d"
| "fromkeys d (x # xs) = (if x \<in> set d then fromkeys d xs else fromkeys (d @ [x]) xs)"

definition dict_fromkeys :: "'a list \<Rightarrow> 'a list" where
  "dict_fromkeys xs = fromkeys [] xs"

section \<open>The regular expressions of the normalizers\<close>

text \<open>
  A matcher takes the text at a position and returns what is left after the match
  there, if the pattern matches at that position. The quantifiers are greedy; with the
  character classes disjoint as described above, backtracking into a shorter run of
  \<open>\<^verbatim>\<open>\d+\<close>\<close>, \<open>\<^verbatim>\<open>\s*\<close>\<close> or \<open>\<^verbatim>\<open>.*\<close>\<close> never yields a match that the longest run does not.
\<close>

type_synonym matcher = "pystr \<Rightarrow> pystr option"

definition m_char :: "nat \<Rightarrow> matcher" where
  "m_char c s = (case s of [] \<Rightarrow> None | x # r \<Rightarrow> if x = c then Some r else None)"

definition m_digits :: "unicode \<Rightarrow> matcher" where
  \<comment> \<open>\<open>\<^verbatim>\<open>\d+\<close>\<close>\<close>
  "m_digits U s =
     (if takeWhile (u_isdecimal U) s = [] then None else Some (dropWhile (u_isdecimal U) s))"

definition m_spaces :: "unicode \<Rightarrow> matcher" where
  \<comment> \<open>\<open>\<^verbatim>\<open>\s*\<close>\<close>\<close>
  "m_spaces U s = Some (dropWhile (u_isspace U) s)"

definition m_dotstar :: matcher where
  \<comment> \<open>\<open>\<^verbatim>\<open>.*\<close>\<close>: the dot matches everything but the line feed\<close>
  "m_dotstar s = Some (dropWhile (\<lambda>c. c \<noteq> 10) s)"

definition m_eol :: matcher where
  \<comment> \<open>\<open>\<^verbatim>\<open>$\<close>\<close>: at the end of the text, or before a line feed that ends it\<close>
  "m_eol s = (if s = [] \<or> s = [10] then Some s else None)"

definition m_price :: "unicode \<Rightarrow> matcher" where
  \<comment> \<open>\<open>\<^verbatim>\<open>\d+\.\d+\<close>\<close>\<close>
  "m_price U s = Option.bind (Option.bind (m_digits U s) (m_char 46)) (m_digits U)"

definition m_slash_price :: "unicode \<Rightarrow> matcher" where
  \<comment> \<open>\<open>\<^verbatim>\<open>/\d+\.\d+\<close>\<close>\<close>
  "m_slash_price U s = Option.bind (m_char 47 s) (m_price U)"

definition m_plus_number :: "unicode \<Rightarrow> matcher" where
  \<comment> \<open>\<open>\<^verbatim>\<open>\+\s*\d+\<close>\<close>\<close>
  "m_plus_number U s = Option.bind (Option.bind (m_char 43 s) (m_spaces U)) (m_digits U)"

definition m_bar_rest :: matcher where
  \<comment> \<open>\<open>\<^verbatim>\<open>[|].*\<close>\<close>\<close>
  "m_bar_rest s = Option.bind (m_char 124 s) m_dotstar"

definition m_price_rest :: "unicode \<Rightarrow> matcher" where
  \<comment> \<open>\<open>\<^verbatim>\<open>\d+\.\d+.*$\<close>\<close>\<close>
  "m_price_rest U s = Option.bind (Option.bind (m_price U s) m_dotstar) m_eol"

definition m_slash_rest :: matcher where
  \<comment> \<open>\<open>\<^verbatim>\<open>/.*$\<close>\<close>\<close>
  "m_slash_rest s = Option.bind (Option.bind (m_char 47 s) m_dotstar) m_eol"

text \<open>
  \<open>re.sub(pattern, "", s)\<close>: every match is removed, the matches found from left to
  right, each search starting where the previous match ended. None of the patterns
  above matches the empty string, so a match always consumes text.
\<close>

function re_sub :: "matcher \<Rightarrow> pystr \<Rightarrow> pystr" where
  "re_sub m [] = []"
| "re_sub m (c # cs) =
     (case m (c # cs) of
        None \<Rightarrow> c # re_sub m cs
      | Some r \<Rightarrow> if length r < length (c # cs) then re_sub m r else c # re_sub m cs)"
  by pat_completeness auto
termination
  by (relation "measure (\<lambda>(m, s). length s)") auto

section \<open>The menu-text normalizers\<close>

definition noise_headings :: "pystr list" where
  "noise_headings =
     [cp ''LUNCH SPECIALS'', cp ''BURGERS/MAINS'', cp ''MON-THU'', cp ''TILL4PM'']"

text \<open>The middle dot \<open>U+00B7\<close> of the source's \<open>startswith\<close> tests.\<close>

definition middle_dot :: pystr where
  "middle_dot = [183]"

text \<open>
  The loop of \<open>extract_menu_items_from_content\<close> over the lines of the content, run
  when the backend answered 200 with a \<open>recommendations\<close> field.
\<close>

fun ai_lines :: "unicode \<Rightarrow> pystr list \<Rightarrow> pystr list \<Rightarrow> pystr list" where
  "ai_lines U [] menu_items = menu_items"
| "ai_lines U (l # lines) menu_items =
     (let line = strip U l in
      if line \<noteq> [] \<and> \<not> startswith line (cp ''{'') \<and> \<not> startswith line middle_dot
         \<and> \<not> startswith line (cp ''?'') \<and> length line > 3 \<and> \<not> isnumeric U line
         \<and> \<not> contains (cp ''img_path'') line
      then
        let cleaned = re_sub (m_price U) line;
            cleaned = re_sub (m_slash_price U) cleaned;
            cleaned = re_sub (m_plus_number U) cleaned;
            cleaned = re_sub m_bar_rest cleaned;
            cleaned = strip U cleaned
        in if length cleaned > 5 \<and> cleaned \<notin> set noise_headings
              \<and> \<not> startswith cleaned middle_dot
           then ai_lines U lines (menu_items @ [cleaned])
           else ai_lines U lines menu_items
      else ai_lines U lines menu_items)"

definition ai_menu_items :: "unicode \<Rightarrow> pystr \<Rightarrow> pystr list" where
  "ai_menu_items U content =
     (let lines = split 10 content;
          menu_items = ai_lines U lines [];
          unique_items = take 15 (dict_fromkeys menu_items)
      in unique_items)"

fun simple_lines :: "unicode \<Rightarrow> pystr list \<Rightarrow> pystr list \<Rightarrow> pystr list" where
  "simple_lines U [] menu_items = menu_items"
| "simple_lines U (l # lines) menu_items =
     (let line = strip U l in
      if line \<noteq> [] \<and> \<not> startswith line (cp ''{'') \<and> \<not> startswith line middle_dot
         \<and> \<not> startswith line (cp ''?'') \<and> length line > 5 \<and> \<not> isnumeric U line
         \<and> \<not> contains (cp ''img_path'') line \<and> \<not> contains (cp ''type'') line
      then
        let cleaned = re_sub (m_price_rest U) line;
            cleaned = re_sub m_slash_rest cleaned;
            cleaned = strip U cleaned
        in if length cleaned > 3 \<and> cleaned \<notin> set noise_headings
           then simple_lines U lines (menu_items @ [cleaned])
           else simple_lines U lines menu_items
      else simple_lines U lines menu_items)"

definition parse_menu_items_simple :: "unicode \<Rightarrow> pystr \<Rightarrow> pystr list" where
  "parse_menu_items_simple U content =
     (let lines = split 10 content;
          menu_items = simple_lines U lines [];
          unique_items = take 12 (dict_fromkeys menu_items)
      in unique_items)"

section \<open>JSON values, HTTP replies and the script's state\<close>

text \<open>
  What \<open>response.json()\<close> returns. Python's \<open>None\<close> is \<open>JNull\<close>: a function that
  returns \<open>None\<close> and one that returns the parsed body \<open>null\<close> cannot be told apart.
  A number is held by its value; the script only ever tests whether one is zero.
\<close>

datatype json =
    JNull
  | JBool bool
  | JNum rat
  | JStr pystr
  | JList "json list"
  | JDict "(pystr \<times> json) list"

datatype py_error = AttributeError | TypeError | KeyError

text \<open>Truth value testing (\<open>if x\<close>, \<open>not x\<close>, \<open>x and y\<close>).\<close>

fun truthy :: "json \<Rightarrow> bool" where
  "truthy JNull = False"
| "truthy (JBool b) = b"
| "truthy (JNum n) = (n \<noteq> 0)"
| "truthy (JStr s) = (s \<noteq> [])"
| "truthy (JList xs) = (xs \<noteq> [])"
| "truthy (JDict kvs) = (kvs \<noteq> [])"

text \<open>\<open>d.get(key, dflt)\<close>: only a dict has the method.\<close>

fun py_get :: "json \<Rightarrow> pystr \<Rightarrow> json \<Rightarrow> py_error + json" where
  "py_get (JDict kvs) key dflt =
     (case map_of kvs key of None \<Rightarrow> Inr dflt | Some v \<Rightarrow> Inr v)"
| "py_get _ key dflt = Inl AttributeError"

text \<open>
  The outcome of one \<open>requests.get\<close> or \<open>requests.post\<close>: a response with its status
  code and its body parsed as JSON (\<open>None\<close> when \<open>response.json()\<close> raises), or one of
  the exceptions the source tells apart.
\<close>

datatype http_reply =
    Response int "json option"
  | Raises_Timeout
  | Raises_ConnectionError
  | Raises_Exception

datatype headers = No_headers | Headers "pystr option"

datatype endpoint =
    Get_health
  | Get_root
  | Get_api_info
  | Post_analyze_menu "pystr list" "pystr list" "pystr list" pystr
  | Post_get_recommendations pystr
  | Post_extract_menu_items pystr
  | Get_job json
  | Post_job_extract_menu json
  | Get_guidelines pystr

type_synonym request = "endpoint \<times> headers"

text \<open>The backend: its reply to the \<open>n\<close>-th request of a run, given the request.\<close>

type_synonym backend = "nat \<Rightarrow> request \<Rightarrow> http_reply"

text \<open>What the script reports to the user when something goes wrong.\<close>

datatype event =
    Backend_disconnected
  | Invalid_api_key
  | Api_key_required
  | Api_key_not_validated
  | Failed_to_fetch_guidelines
  | Guidelines_error
  | Backend_error int
  | Analysis_timed_out
  | Cannot_connect_to_backend
  | Error_communicating
  | Error_getting_recommendations
  | Error_starting_processing
  | Status_backend_returned int
  | Status_request_timed_out
  | Status_cannot_connect
  | Status_error
  | Extraction_job_not_found
  | Extraction_failed int
  | Extraction_timed_out
  | Extraction_error
  | AI_extraction_failed
  | Could_not_get_status nat
  | Job_failed json
  | Job_not_found
  | Unknown_status json nat
  | Polling_timed_out
  | Failed_to_extract_content
  | Processing_issues
  | Failed_to_start_processing
  | No_items_selected
  | Enter_at_least_one_item
  | Enter_item_to_analyze

text \<open>
  \<open>st.session_state\<close> together with what a run of the script does to the world: the
  requests it has sent, the reports it has shown and the seconds it has slept.
\<close>

record state =
  selected_menu_items :: "pystr list"
  extracted_menu_options :: "pystr list"
  document_processed :: bool
  extracted_items_persistent :: json
  doc_processed_persistent :: bool
  api_key :: pystr
  api_key_valid :: bool
  processed_files :: "(pystr \<times> nat) list"
  requests :: "request list"
  events :: "event list"
  slept :: nat

definition send :: "backend \<Rightarrow> request \<Rightarrow> state \<Rightarrow> http_reply \<times> state" where
  "send B r s = (B (length (requests s)) r, s\<lparr>requests := requests s @ [r]\<rparr>)"

definition report :: "event \<Rightarrow> state \<Rightarrow> state" where
  "report e s = s\<lparr>events := events s @ [e]\<rparr>"

definition get_headers :: "state \<Rightarrow> headers" where
  "get_headers s = (if api_key s = [] then Headers None else Headers (Some (api_key s)))"

text \<open>
  The session state the script sets up when a session begins. The field
  \<open>processing_job_id\<close>, which the script initialises and never uses again, is left out;
  \<open>processed_files\<close> holds the uploads for which a key \<open>processed_{name}_{size}\<close> is set.
\<close>

definition initial_state :: state where
  "initial_state =
     \<lparr>selected_menu_items = [],
      extracted_menu_options = [],
      document_processed = False,
      extracted_items_persistent = JList [],
      doc_processed_persistent = False,
      api_key = [],
      api_key_valid = False,
      processed_files = [],
      requests = [],
      events = [],
      slept = 0\<rparr>"

section \<open>The calls to the backend\<close>

definition check_backend_health :: "backend \<Rightarrow> state \<Rightarrow> bool \<times> state" where
  "check_backend_health B s =
     (case send B (Get_health, No_headers) s of
        (Response code body, s1) \<Rightarrow>
          if code = 200 then (True, s1)
          else (case send B (Get_root, No_headers) s1 of
                  (Response code2 body2, s2) \<Rightarrow> (code2 = 200, s2)
                | (_, s2) \<Rightarrow> (False, s2))
      | (_, s1) \<Rightarrow> (False, s1))"

definition not_found_payload :: json where
  "not_found_payload =
     JDict [(cp ''status'', JStr (cp ''not_found'')),
            (cp ''error'', JStr (cp ''Job not found or expired''))]"

definition get_job_status :: "backend \<Rightarrow> json \<Rightarrow> state \<Rightarrow> json \<times> state" where
  "get_job_status B job_id s =
     (case send B (Get_job job_id, get_headers s) s of
        (Response code body, s1) \<Rightarrow>
          if code = 200 then
            (case body of
               Some j \<Rightarrow> (j, s1)
             | None \<Rightarrow> (JNull, report Status_error s1))
          else if code = 404 then (not_found_payload, s1)
          else (JNull, report (Status_backend_returned code) s1)
      | (Raises_Timeout, s1) \<Rightarrow> (JNull, report Status_request_timed_out s1)
      | (Raises_ConnectionError, s1) \<Rightarrow> (JNull, report Status_cannot_connect s1)
      | (Raises_Exception, s1) \<Rightarrow> (JNull, report Status_error s1))"

section \<open>Polling a job\<close>

text \<open>
  The loop of \<open>poll_job_until_complete\<close> is \<open>while True\<close>: it may run forever, and then
  the model's value is \<open>None\<close>. A run that ends gives what the function returns (or the
  exception that leaves it) and the state it ends in. \<open>time.sleep(8)\<close> adds to \<open>slept\<close>.
  \<open>max_polls\<close> is assigned and never read, and the report of a timeout that follows the
  loop in the source cannot be reached: no run of the model shows \<open>Polling_timed_out\<close>.
\<close>

partial_function (option) poll_loop ::
  "backend \<Rightarrow> json \<Rightarrow> nat \<Rightarrow> state \<Rightarrow> ((py_error + json) \<times> state) option" where
  "poll_loop B job_id poll_count s =
     (case get_job_status B job_id s of (status_data, s1) \<Rightarrow>
      let poll_count = poll_count + 1 in
      if \<not> truthy status_data
      then Some (Inr JNull, report (Could_not_get_status poll_count) s1)
      else
        (case py_get status_data (cp ''status'') (JStr (cp ''unknown'')) of
           Inl e \<Rightarrow> Some (Inl e, s1)
         | Inr status \<Rightarrow>
             if status = JStr (cp ''completed'') then Some (Inr status_data, s1)
             else if status = JStr (cp ''failed'') then
               (case py_get status_data (cp ''error'') (JStr (cp ''Unknown error'')) of
                  Inl e \<Rightarrow> Some (Inl e, s1)
                | Inr err \<Rightarrow> Some (Inr JNull, report (Job_failed err) s1))
             else if status = JStr (cp ''not_found'') then
               Some (Inr JNull, report Job_not_found s1)
             else if status \<in> set [JStr (cp ''pending''), JStr (cp ''running'')] then
               poll_loop B job_id poll_count (s1\<lparr>slept := slept s1 + 8\<rparr>)
             else
               poll_loop B job_id poll_count
                 ((report (Unknown_status status poll_count) s1)\<lparr>slept := slept s1 + 8\<rparr>)))"

declare poll_loop.simps [code]

definition poll_job_until_complete ::
  "backend \<Rightarrow> json \<Rightarrow> state \<Rightarrow> ((py_error + json) \<times> state) option" where
  "poll_job_until_complete B job_id s =
     (let max_polls = (100 :: nat);
          poll_count = 0
      in poll_loop B job_id poll_count s)"

section \<open>The other calls to the backend\<close>

text \<open>\<open>d[key]\<close>: a missing key and a value that is no dict both raise.\<close>

fun py_index :: "json \<Rightarrow> pystr \<Rightarrow> py_error + json" where
  "py_index (JDict kvs) key = (case map_of kvs key of None \<Rightarrow> Inl KeyError | Some v \<Rightarrow> Inr v)"
| "py_index _ key = Inl TypeError"

text \<open>\<open>x and y\<close> where \<open>y\<close> may raise: \<open>y\<close> is evaluated only when \<open>x\<close> is true.\<close>

definition py_and :: "json \<Rightarrow> (py_error + json) \<Rightarrow> py_error + json" where
  "py_and x y = (if truthy x then y else Inr x)"

text \<open>\<open>test_api_key\<close>; of the pair it returns, the script uses the flag only.\<close>

definition test_api_key :: "backend \<Rightarrow> pystr option \<Rightarrow> state \<Rightarrow> bool \<times> state" where
  "test_api_key B key s =
     (if (key = None \<or> key = Some []) \<and> api_key s = [] then (False, s)
      else
        let test_key = (case key of None \<Rightarrow> api_key s
                        | Some k \<Rightarrow> if k \<noteq> [] then k else api_key s)
        in (case send B (Get_api_info, Headers (Some test_key)) s of
              (Response code body, s1) \<Rightarrow> (code = 200, s1)
            | (_, s1) \<Rightarrow> (False, s1)))"

definition analyze_menu_api ::
  "backend \<Rightarrow> pystr list \<Rightarrow> pystr list \<Rightarrow> pystr list \<Rightarrow> pystr \<Rightarrow> state \<Rightarrow> json \<times> state" where
  "analyze_menu_api B menu_items dietary_preferences health_conditions age_group s =
     (case send B (Post_analyze_menu menu_items dietary_preferences health_conditions age_group,
                   get_headers s) s of
        (Response code body, s1) \<Rightarrow>
          if code = 200 then
            (case body of
               Some j \<Rightarrow> (j, s1)
             | None \<Rightarrow> (JNull, report Error_communicating s1))
          else (JNull, report (Backend_error code) s1)
      | (Raises_Timeout, s1) \<Rightarrow> (JNull, report Analysis_timed_out s1)
      | (Raises_ConnectionError, s1) \<Rightarrow> (JNull, report Cannot_connect_to_backend s1)
      | (Raises_Exception, s1) \<Rightarrow> (JNull, report Error_communicating s1))"

definition get_food_recommendations_api :: "backend \<Rightarrow> pystr \<Rightarrow> state \<Rightarrow> json \<times> state" where
  "get_food_recommendations_api B query s =
     (case send B (Post_get_recommendations query, get_headers s) s of
        (Response code body, s1) \<Rightarrow>
          if code = 200 then
            (case body of
               Some j \<Rightarrow>
                 (case py_index j (cp ''recommendations'') of
                    Inr r \<Rightarrow> (r, s1)
                  | Inl e \<Rightarrow> (JNull, report Error_getting_recommendations s1))
             | None \<Rightarrow> (JNull, report Error_getting_recommendations s1))
          else (JNull, report (Backend_error code) s1)
      | (_, s1) \<Rightarrow> (JNull, report Error_getting_recommendations s1))"

definition start_document_processing_job :: "backend \<Rightarrow> pystr \<Rightarrow> state \<Rightarrow> json \<times> state" where
  "start_document_processing_job B file_path s =
     (case send B (Post_extract_menu_items file_path, get_headers s) s of
        (Response code body, s1) \<Rightarrow>
          if code = 200 then
            (case body of
               Some j \<Rightarrow> (j, s1)
             | None \<Rightarrow> (JNull, report Error_starting_processing s1))
          else (JNull, report (Backend_error code) s1)
      | (_, s1) \<Rightarrow> (JNull, report Error_starting_processing s1))"

definition extract_menu_from_job :: "backend \<Rightarrow> json \<Rightarrow> state \<Rightarrow> json \<times> state" where
  "extract_menu_from_job B job_id s =
     (case send B (Post_job_extract_menu job_id, get_headers s) s of
        (Response code body, s1) \<Rightarrow>
          if code = 200 then
            (case body of
               Some j \<Rightarrow> (j, s1)
             | None \<Rightarrow> (JNull, report Extraction_error s1))
          else if code = 404 then (JNull, report Extraction_job_not_found s1)
          else (JNull, report (Extraction_failed code) s1)
      | (Raises_Timeout, s1) \<Rightarrow> (JNull, report Extraction_timed_out s1)
      | (_, s1) \<Rightarrow> (JNull, report Extraction_error s1))"

text \<open>
  \<open>extract_menu_items_from_content\<close>: the lines are normalized by \<open>ai_menu_items\<close> when
  the backend answers 200 and \<open>response.json()["recommendations"]\<close> evaluates; a
  response that is not 200 and every exception lead to \<open>parse_menu_items_simple\<close>.
\<close>

definition extract_menu_items_from_content ::
  "unicode \<Rightarrow> backend \<Rightarrow> pystr \<Rightarrow> state \<Rightarrow> pystr list \<times> state" where
  "extract_menu_items_from_content U B content s =
     (case send B (Post_get_recommendations (cp ''Extract menu items from: '' @ content),
                   get_headers s) s of
        (Response code body, s1) \<Rightarrow>
          if code = 200 then
            (case body of
               Some j \<Rightarrow>
                 (case py_index j (cp ''recommendations'') of
                    Inr ai_response \<Rightarrow> (ai_menu_items U content, s1)
                  | Inl e \<Rightarrow>
                      (parse_menu_items_simple U content, report AI_extraction_failed s1))
             | None \<Rightarrow> (parse_menu_items_simple U content, report AI_extraction_failed s1))
          else (parse_menu_items_simple U content, s1)
      | (_, s1) \<Rightarrow> (parse_menu_items_simple U content, report AI_extraction_failed s1))"

section \<open>One run of the script\<close>

text \<open>
  Streamlit runs \<open>main\<close> from top to bottom at every interaction. The widgets return what
  the user entered; these values are the record \<open>ui\<close>. Calls that only render
  (\<open>st.markdown\<close>, \<open>st.success\<close>, \<open>st.info\<close>, \<open>st.metric\<close>, \<open>display_results\<close> on a
  dict) change neither the state nor the control flow and are left out.
\<close>

datatype input_method = Upload_document | Type_items

record ui =
  api_key_input :: pystr
  test_api_key_clicked :: bool
  selected_category :: pystr
  view_guidelines_clicked :: bool
  input_method :: input_method
  uploaded_file :: "(pystr \<times> nat) option"
  reprocess_clicked :: bool
  selected_from_doc :: "pystr list"
  custom_additions :: pystr
  typed_menu_items :: pystr
  age_group :: pystr
  dietary_preferences :: "pystr list"
  health_conditions :: "pystr list"
  submitted :: bool
  recommendation_query :: pystr
  get_recommendations_clicked :: bool

text \<open>
  How a run ends: at the end of \<open>main\<close>, at a \<open>return\<close>, at \<open>st.stop()\<close>, at
  \<open>st.rerun()\<close>, or with an exception that nothing catches. \<open>Ill_typed\<close> stands for a
  run in which the backend's \<open>document_content\<close> is not a string; what the script does
  with such a value is not modelled.
\<close>

datatype outcome = Finished | Returned | Stopped | Rerun | Raised py_error | Ill_typed

datatype flow = Next | Halt outcome

definition common_dishes :: "pystr list" where
  "common_dishes =
     [cp ''Chicken Rice'', cp ''Laksa'', cp ''Char Kway Teow'', cp ''Prawn Mee'',
      cp ''Bak Chor Mee'', cp ''Fish and Chips'', cp ''Nasi Lemak'', cp ''Kaya Toast'']"

text \<open>\<open>sep.join(xs)\<close> for a separator of one code point.\<close>

fun join :: "nat \<Rightarrow> pystr list \<Rightarrow> pystr" where
  "join sep [] = []"
| "join sep [x] = x"
| "join sep (x # y # ys) = x @ sep # join sep (y # ys)"

text \<open>
  The loop that removes duplicates while preserving order, comparing \<open>item.lower()\<close>:
  \<open>seen\<close> is the set of the lowered items met so far.
\<close>

fun unique_options :: "unicode \<Rightarrow> pystr list \<Rightarrow> pystr list \<Rightarrow> pystr list \<Rightarrow> pystr list" where
  "unique_options U [] seen uniq = uniq"
| "unique_options U (item # all_options) seen uniq =
     (if u_lower U item \<notin> set seen
      then unique_options U all_options (u_lower U item # seen) (uniq @ [item])
      else unique_options U all_options seen uniq)"

text \<open>
  \<open>len(x)\<close> followed by \<open>for item in x: item.lower()\<close> on a JSON value: the strings the
  loop meets, or the exception that \<open>len\<close> or \<open>lower\<close> raises.
\<close>

fun the_strings :: "json list \<Rightarrow> py_error + pystr list" where
  "the_strings [] = Inr []"
| "the_strings (JStr x # xs) =
     (case the_strings xs of Inl e \<Rightarrow> Inl e | Inr ys \<Rightarrow> Inr (x # ys))"
| "the_strings (_ # xs) = Inl AttributeError"

fun items_of :: "json \<Rightarrow> py_error + pystr list" where
  "items_of (JList xs) = the_strings xs"
| "items_of (JStr x) = Inr (map (\<lambda>c. [c]) x)"
| "items_of (JDict kvs) = Inr (map fst kvs)"
| "items_of _ = Inl TypeError"

fun has_len :: "json \<Rightarrow> bool" where
  "has_len (JList xs) = True"
| "has_len (JStr x) = True"
| "has_len (JDict kvs) = True"
| "has_len _ = False"

definition store_options :: "pystr list \<Rightarrow> pystr \<times> nat \<Rightarrow> state \<Rightarrow> state" where
  "store_options uniq file_key s =
     s\<lparr>extracted_menu_options := uniq,
       document_processed := True,
       extracted_items_persistent := JList (map JStr uniq),
       doc_processed_persistent := True,
       processed_files := file_key # processed_files s\<rparr>"

text \<open>The typed-menu parser of the analysis step.\<close>

definition parse_typed_items :: "unicode \<Rightarrow> pystr \<Rightarrow> pystr list" where
  "parse_typed_items U menu_items_input =
     [strip U item. item \<leftarrow> split 44 (replace 10 44 menu_items_input), strip U item \<noteq> []]"

subsection \<open>The sidebar\<close>

definition view_guidelines :: "backend \<Rightarrow> pystr \<Rightarrow> state \<Rightarrow> state" where
  "view_guidelines B category s =
     (case send B (Get_guidelines category, get_headers s) s of
        (Response code body, s1) \<Rightarrow>
          if code = 200 then (case body of Some j \<Rightarrow> s1 | None \<Rightarrow> report Guidelines_error s1)
          else report Failed_to_fetch_guidelines s1
      | (_, s1) \<Rightarrow> report Guidelines_error s1)"

definition main_sidebar :: "unicode \<Rightarrow> backend \<Rightarrow> ui \<Rightarrow> state \<Rightarrow> flow \<times> state" where
  "main_sidebar U B u s =
     (case check_backend_health B s of (healthy, s1) \<Rightarrow>
      if \<not> healthy then (Halt Returned, report Backend_disconnected s1)
      else
        let s2 = (if api_key_input u \<noteq> api_key s1
                  then s1\<lparr>api_key := api_key_input u, api_key_valid := False\<rparr> else s1);
            s3 = (if test_api_key_clicked u \<and> strip U (api_key_input u) \<noteq> []
                  then (case test_api_key B (Some (api_key_input u)) s2 of (is_valid, s') \<Rightarrow>
                          if is_valid then s'\<lparr>api_key_valid := True\<rparr>
                          else report Invalid_api_key (s'\<lparr>api_key_valid := False\<rparr>))
                  else s2);
            s4 = (if view_guidelines_clicked u then view_guidelines B (selected_category u) s3
                  else s3)
        in (Next, s4))"

subsection \<open>The gate before the main content\<close>

definition main_gate :: "backend \<Rightarrow> state \<Rightarrow> flow \<times> state" where
  "main_gate B s =
     (case check_backend_health B s of (healthy, s1) \<Rightarrow>
      if \<not> healthy then (Halt Stopped, s1)
      else if api_key s1 = [] then (Halt Stopped, report Api_key_required s1)
      else if \<not> api_key_valid s1 then (Halt Stopped, report Api_key_not_validated s1)
      else (Next, s1))"

subsection \<open>The uploaded document\<close>

text \<open>What the script does with the result of the poll (\<open>if final_result:\<close>).\<close>

definition use_final_result ::
  "unicode \<Rightarrow> backend \<Rightarrow> json \<Rightarrow> pystr \<times> nat \<Rightarrow> json \<Rightarrow> state \<Rightarrow> flow \<times> state" where
  "use_final_result U B job_id file_key final_result s =
     (if truthy final_result then
        (case extract_menu_from_job B job_id s of (extraction_result, s1) \<Rightarrow>
         (case py_and extraction_result
                 (py_get extraction_result (cp ''document_content'') JNull) of
            Inl e \<Rightarrow> (Halt (Raised e), s1)
          | Inr document_content \<Rightarrow>
              if truthy document_content then
                (case document_content of
                   JStr content \<Rightarrow>
                     (case extract_menu_items_from_content U B content s1 of
                        (extracted_menu_items, s2) \<Rightarrow>
                          if extracted_menu_items \<noteq> [] then
                            (Next, store_options
                                     (unique_options U extracted_menu_items [] []) file_key s2)
                          else (Next, s2))
                 | _ \<Rightarrow> (Halt Ill_typed, s1))
              else
                (let fallback_items = common_dishes
                 in (Next, (report Failed_to_extract_content s1)
                             \<lparr>selected_menu_items := take 3 fallback_items\<rparr>))))
      else (Next, s))"

text \<open>
  The branches on the result of \<open>start_document_processing_job\<close>. The temporary copy of
  the upload, written before the call and removed in the last branch, is left out; the
  path sent to the backend is the file's name after \<open>temp_\<close>, without the directory.
\<close>

definition main_upload ::
  "unicode \<Rightarrow> backend \<Rightarrow> ui \<Rightarrow> state \<Rightarrow> (flow \<times> state) option" where
  "main_upload U B u s =
     (case (input_method u, uploaded_file u) of
        (Upload_document, Some (name, fsize)) \<Rightarrow>
          if (name, fsize) \<notin> set (processed_files s) then
            (case start_document_processing_job B (cp ''temp_'' @ name) s of (result, s1) \<Rightarrow>
             (case py_and result (py_get result (cp ''job_id'') JNull) of
                Inl e \<Rightarrow> Some (Halt (Raised e), s1)
              | Inr has_job \<Rightarrow>
                  if truthy has_job then
                    (let job_id = has_job in
                     case poll_job_until_complete B job_id s1 of
                       None \<Rightarrow> None
                     | Some (Inl e, s2) \<Rightarrow> Some (Halt (Raised e), s2)
                     | Some (Inr final_result, s2) \<Rightarrow>
                         Some (use_final_result U B job_id (name, fsize) final_result s2))
                  else
                    (case py_and result (py_get result (cp ''status'') JNull) of
                       Inl e \<Rightarrow> Some (Halt (Raised e), s1)
                     | Inr status \<Rightarrow>
                         if truthy result \<and> status = JStr (cp ''fallback_success'') then
                           (case py_get result (cp ''menu_items'')
                                   (JList (map JStr common_dishes)) of
                              Inl e \<Rightarrow> Some (Halt (Raised e), s1)
                            | Inr fallback_items \<Rightarrow>
                                let s2 = (report Processing_issues s1)
                                           \<lparr>extracted_items_persistent := fallback_items,
                                            doc_processed_persistent := True,
                                            processed_files := (name, fsize) # processed_files s1\<rparr>
                                in if has_len fallback_items then Some (Next, s2)
                                   else Some (Halt (Raised TypeError), s2))
                         else if truthy result \<and> status = JStr (cp ''cache_hit'') then
                           (case py_get result (cp ''menu_items'') (JList []) of
                              Inl e \<Rightarrow> Some (Halt (Raised e), s1)
                            | Inr extracted_menu_items \<Rightarrow>
                                (case items_of extracted_menu_items of
                                   Inl e \<Rightarrow> Some (Halt (Raised e), s1)
                                 | Inr all_options \<Rightarrow>
                                     Some (Next, store_options
                                                   (unique_options U all_options [] [])
                                                   (name, fsize) s1)))
                         else Some (Next, report Failed_to_start_processing s1))))
          else if truthy (extracted_items_persistent s) \<and> reprocess_clicked u then
            Some (Halt Rerun, s\<lparr>processed_files := removeAll (name, fsize) (processed_files s)\<rparr>)
          else Some (Next, s)
      | _ \<Rightarrow> Some (Next, s))"

subsection \<open>The selection, the form and the analysis\<close>

definition main_selection :: "unicode \<Rightarrow> ui \<Rightarrow> state \<Rightarrow> state" where
  "main_selection U u s =
     (let has_extracted_items =
            (truthy (extracted_items_persistent s) \<or> extracted_menu_options s \<noteq> []);
          doc_processed = (doc_processed_persistent s \<or> document_processed s)
      in if input_method u = Upload_document \<and> doc_processed \<and> has_extracted_items then
           let all_selected = selected_from_doc u;
               all_selected =
                 (if custom_additions u \<noteq> [] then
                    all_selected
                    @ [strip U item. item \<leftarrow> split 44 (custom_additions u), strip U item \<noteq> []]
                  else all_selected)
           in s\<lparr>selected_menu_items := all_selected\<rparr>
         else s)"

definition main_form :: "ui \<Rightarrow> state \<Rightarrow> pystr \<times> state" where
  "main_form u s =
     (if input_method u = Type_items then (typed_menu_items u, s)
      else if selected_menu_items s \<noteq> [] then (join 10 (selected_menu_items s), s)
      else ([], report No_items_selected s))"

definition main_analysis :: "unicode \<Rightarrow> backend \<Rightarrow> ui \<Rightarrow> pystr \<Rightarrow> state \<Rightarrow> flow \<times> state" where
  "main_analysis U B u menu_items_input s =
     (if submitted u \<and> strip U menu_items_input \<noteq> [] then
        let menu_items = parse_typed_items U menu_items_input in
        if menu_items = [] then (Halt Returned, report Enter_at_least_one_item s)
        else
          (case analyze_menu_api B menu_items (dietary_preferences u) (health_conditions u)
                  (age_group u) s of
             (results, s1) \<Rightarrow>
               if truthy results then
                 (case py_get results (cp ''recommendations'') JNull of
                    Inl e \<Rightarrow> (Halt (Raised e), s1)
                  | Inr r \<Rightarrow> (Next, s1))
               else (Next, s1))
      else if submitted u then (Next, report Enter_item_to_analyze s)
      else (Next, s))"

definition main_recommendations :: "unicode \<Rightarrow> backend \<Rightarrow> ui \<Rightarrow> state \<Rightarrow> state" where
  "main_recommendations U B u s =
     (if get_recommendations_clicked u \<and> strip U (recommendation_query u) \<noteq> []
      then snd (get_food_recommendations_api B (recommendation_query u) s)
      else s)"

subsection \<open>\<open>main\<close>\<close>

definition main :: "unicode \<Rightarrow> backend \<Rightarrow> ui \<Rightarrow> state \<Rightarrow> (outcome \<times> state) option" where
  "main U B u s =
     (case main_sidebar U B u s of
        (Halt out, s1) \<Rightarrow> Some (out, s1)
      | (Next, s1) \<Rightarrow>
     (case main_gate B s1 of
        (Halt out, s2) \<Rightarrow> Some (out, s2)
      | (Next, s2) \<Rightarrow>
     (case main_upload U B u s2 of
        None \<Rightarrow> None
      | Some (Halt out, s3) \<Rightarrow> Some (out, s3)
      | Some (Next, s3) \<Rightarrow>
     (case main_form u (main_selection U u s3) of (menu_items_input, s4) \<Rightarrow>
     (case main_analysis U B u menu_items_input s4 of
        (Halt out, s5) \<Rightarrow> Some (out, s5)
      | (Next, s5) \<Rightarrow> Some (Finished, main_recommendations U B u s5))))))"

section \<open>The vocabulary of the properties\<close>

text \<open>The status request that a poll started in state \<open>s\<close> sends, again and again.\<close>

definition status_request :: "json \<Rightarrow> state \<Rightarrow> request" where
  "status_request job_id s = (Get_job job_id, get_headers s)"

text \<open>
  What \<open>get_job_status\<close> returns to the poll started in \<open>s\<close> at its request number \<open>i\<close>
  (from 0), the requests before it having been status requests of the same poll.
\<close>

definition status_seen :: "backend \<Rightarrow> json \<Rightarrow> state \<Rightarrow> nat \<Rightarrow> json" where
  "status_seen B job_id s i =
     fst (get_job_status B job_id
            (s\<lparr>requests := requests s @ replicate i (status_request job_id s)\<rparr>))"

definition status_of :: "json \<Rightarrow> py_error + json" where
  "status_of status_data = py_get status_data (cp ''status'') (JStr (cp ''unknown''))"

definition terminal_statuses :: "json list" where
  "terminal_statuses =
     [JStr (cp ''completed''), JStr (cp ''failed''), JStr (cp ''not_found'')]"

text \<open>Status data that carries a status, and not a terminal one.\<close>

definition goes_on :: "json \<Rightarrow> bool" where
  "goes_on status_data =
     (truthy status_data \<and>
      (case status_of status_data of
         Inl e \<Rightarrow> False
       | Inr status \<Rightarrow> status \<notin> set terminal_statuses))"

text \<open>A reply with which \<open>check_backend_health\<close> finds the backend alive.\<close>

fun alive :: "http_reply \<Rightarrow> bool" where
  "alive (Response code body) = (code = 200)"
| "alive _ = False"

text \<open>A reply with which the AI-assisted extraction call succeeds.\<close>

fun ai_call_succeeds :: "http_reply \<Rightarrow> bool" where
  "ai_call_succeeds (Response code (Some (JDict kvs))) =
     (code = 200 \<and> map_of kvs (cp ''recommendations'') \<noteq> None)"
| "ai_call_succeeds _ = False"

fun is_analysis_request :: "request \<Rightarrow> bool" where
  "is_analysis_request (Post_analyze_menu a b c d, h) = True"
| "is_analysis_request _ = False"

section \<open>Backends to run the model on\<close>

text \<open>
  A backend that answers the requests of a run with the replies of a list, in order, and
  every request after them with one last reply.
\<close>

definition scripted :: "http_reply list \<Rightarrow> http_reply \<Rightarrow> backend" where
  "scripted replies last_reply n r = (if n < length replies then replies ! n else last_reply)"

definition status_reply :: "string \<Rightarrow> http_reply" where
  "status_reply status = Response 200 (Some (JDict [(cp ''status'', JStr (cp status))]))"

definition job_1 :: json where
  "job_1 = JStr (cp ''job-1'')"

text \<open>A user who types a menu into the form and submits it, the other widgets untouched.\<close>

definition typed_and_submitted :: "pystr \<Rightarrow> ui" where
  "typed_and_submitted menu =
     \<lparr>api_key_input = [],
      test_api_key_clicked = False,
      selected_category = cp ''my_healthy_plate'',
      view_guidelines_clicked = False,
      input_method = Type_items,
      uploaded_file = None,
      reprocess_clicked = False,
      selected_from_doc = [],
      custom_additions = [],
      typed_menu_items = menu,
      age_group = cp ''adult'',
      dietary_preferences = [],
      health_conditions = [],
      submitted = True,
      recommendation_query = [],
      get_recommendations_clicked = False\<rparr>"

text \<open>
  A user with a validated key who uploads \<open>menu.pdf\<close> and submits the form, and a backend
  that is alive, starts the job, answers \<open>pending\<close> and then \<open>completed\<close> to the status
  requests, and fails to extract the document content.
\<close>

definition uploaded_and_submitted :: ui where
  "uploaded_and_submitted =
     (typed_and_submitted [])
       \<lparr>api_key_input := cp ''fai_key'',
        input_method := Upload_document,
        uploaded_file := Some (cp ''menu.pdf'', 1000)\<rparr>"

definition validated_state :: state where
  "validated_state = initial_state\<lparr>api_key := cp ''fai_key'', api_key_valid := True\<rparr>"

definition extraction_fails :: backend where
  "extraction_fails =
     scripted
       [Response 200 None,
        Response 200 None,
        Response 200 (Some (JDict [(cp ''job_id'', job_1)])),
        status_reply ''pending'',
        status_reply ''completed'',
        Response 500 None]
       (Response 200 (Some (JDict [(cp ''recommendations'', JList [])])))"

text \<open>
  A user with a validated key who types \<open>Laksa\<close> into the form and submits it, and a
  backend that answers every request with 200.
\<close>

definition typed_with_key :: ui where
  "typed_with_key = (typed_and_submitted (cp ''Laksa''))\<lparr>api_key_input := cp ''fai_key''\<rparr>"

definition answers_everything :: backend where
  "answers_everything =
     scripted [] (Response 200 (Some (JDict [(cp ''recommendations'', JList [])])))"

section \<open>Properties of the menu-text normalizers\<close>

lemma fromkeys_distinct: "distinct d \<Longrightarrow> distinct (fromkeys d xs)"
  by (induction xs arbitrary: d) auto

lemma fromkeys_set: "set (fromkeys d xs) = set d \<union> set xs"
  by (induction xs arbitrary: d) auto

lemma dict_fromkeys_distinct: "distinct (dict_fromkeys xs)"
  by (simp add: dict_fromkeys_def fromkeys_distinct)

lemma dict_fromkeys_set: "set (dict_fromkeys xs) = set xs"
  by (simp add: dict_fromkeys_def fromkeys_set)

lemma ai_lines_noise:
  "set acc \<inter> set noise_headings = {} \<Longrightarrow> set (ai_lines U ls acc) \<inter> set noise_headings = {}"
  by (induction ls arbitrary: acc) (auto simp: Let_def)

lemma simple_lines_noise:
  "set acc \<inter> set noise_headings = {} \<Longrightarrow> set (simple_lines U ls acc) \<inter> set noise_headings = {}"
  by (induction ls arbitrary: acc) (auto simp: Let_def)

lemma ai_menu_items_noise: "set (ai_menu_items U content) \<inter> set noise_headings = {}"
proof -
  have "set (ai_lines U (split 10 content) []) \<inter> set noise_headings = {}"
    by (rule ai_lines_noise) simp
  moreover have "set (ai_menu_items U content) \<subseteq> set (ai_lines U (split 10 content) [])"
    using set_take_subset [of 15 "dict_fromkeys (ai_lines U (split 10 content) [])"]
    by (simp add: ai_menu_items_def dict_fromkeys_set)
  ultimately show ?thesis by blast
qed

lemma simple_noise: "set (parse_menu_items_simple U content) \<inter> set noise_headings = {}"
proof -
  have "set (simple_lines U (split 10 content) []) \<inter> set noise_headings = {}"
    by (rule simple_lines_noise) simp
  moreover have "set (parse_menu_items_simple U content) \<subseteq> set (simple_lines U (split 10 content) [])"
    using set_take_subset [of 12 "dict_fromkeys (simple_lines U (split 10 content) [])"]
    by (simp add: parse_menu_items_simple_def dict_fromkeys_set)
  ultimately show ?thesis by blast
qed

lemma ai_menu_items_length: "length (ai_menu_items U content) \<le> 15"
  by (simp add: ai_menu_items_def)

lemma simple_length: "length (parse_menu_items_simple U content) \<le> 12"
  by (simp add: parse_menu_items_simple_def)

lemma ai_menu_items_distinct: "distinct (ai_menu_items U content)"
  by (simp add: ai_menu_items_def dict_fromkeys_distinct)

lemma simple_distinct: "distinct (parse_menu_items_simple U content)"
  by (simp add: parse_menu_items_simple_def dict_fromkeys_distinct)

lemma extract_cases:
  "fst (extract_menu_items_from_content U B content s) = ai_menu_items U content
   \<or> fst (extract_menu_items_from_content U B content s) = parse_menu_items_simple U content"
  by (auto simp: extract_menu_items_from_content_def send_def split: http_reply.splits option.splits sum.splits)

lemma unique_options_ci:
  "distinct (map (u_lower U) uniq) \<Longrightarrow> set (map (u_lower U) uniq) \<subseteq> set seen \<Longrightarrow>
   distinct (map (u_lower U) (unique_options U xs seen uniq))"
proof (induction xs arbitrary: seen uniq)
  case Nil
  then show ?case by simp
next
  case (Cons a xs)
  show ?case
  proof (cases "u_lower U a \<in> set seen")
    case True
    then show ?thesis using Cons by simp
  next
    case False
    have "distinct (map (u_lower U) (uniq @ [a]))" using Cons.prems False by auto
    moreover have "set (map (u_lower U) (uniq @ [a])) \<subseteq> set (u_lower U a # seen)"
      using Cons.prems by auto
    ultimately show ?thesis using Cons.IH False by simp
  qed
qed

text \<open>
  Claim C5. For every input text, \<open>extract_menu_items_from_content\<close> returns at most 15
  items and \<open>parse_menu_items_simple\<close> at most 12, and no item that either returns is one
  of the noise headings \<open>LUNCH SPECIALS\<close>, \<open>BURGERS/MAINS\<close>, \<open>MON-THU\<close>, \<open>TILL4PM\<close>. This
  holds whatever the backend replies and whatever the Unicode database is.
\<close>

theorem normalizers_bounded_and_noise_free:
  "length (fst (extract_menu_items_from_content U B content s)) \<le> 15
   \<and> length (parse_menu_items_simple U content) \<le> 12
   \<and> set (fst (extract_menu_items_from_content U B content s)) \<inter> set noise_headings = {}
   \<and> set (parse_menu_items_simple U content) \<inter> set noise_headings = {}"
proof -
  have l: "length (parse_menu_items_simple U content) \<le> 15"
    using simple_length [of U content] by simp
  show ?thesis
    using extract_cases [of U B content s] ai_menu_items_length [of U content] l
      simple_length [of U content] ai_menu_items_noise [of U content] simple_noise [of U content]
    by auto
qed

text \<open>
  Claim C2, as stated: the normalizers return no two items that are equal ignoring
  letter case. The code removes duplicates with \<open>dict.fromkeys\<close>, which compares the items
  exactly: of the text with the lines \<open>Chicken Rice\<close> and \<open>chicken rice\<close> both normalizers
  return both lines.
\<close>

theorem normalizers_keep_case_variants:
  "\<not> distinct (map (u_lower ascii)
       (parse_menu_items_simple ascii (cp ''Chicken Rice'' @ [10] @ cp ''chicken rice'')))
   \<and> \<not> distinct (map (u_lower ascii)
       (fst (extract_menu_items_from_content ascii
               (scripted [] (Response 200 (Some (JDict [(cp ''recommendations'', JStr [])]))))
               (cp ''Chicken Rice'' @ [10] @ cp ''chicken rice'') initial_state)))"
  by code_simp

text \<open>
  Claim C2, amended. For every input text, the normalizers return a list with no two
  equal items (compared exactly, letter case included). Items that differ in letter case
  only are removed afterwards, by the loop over \<open>item.lower()\<close> that \<open>main\<close> runs on the
  extracted items before it stores them.
\<close>

theorem normalizers_distinct:
  "distinct (fst (extract_menu_items_from_content U B content s))
   \<and> distinct (parse_menu_items_simple U content)
   \<and> distinct (map (u_lower U)
         (unique_options U (fst (extract_menu_items_from_content U B content s)) [] []))"
proof -
  have "distinct (map (u_lower U)
         (unique_options U (fst (extract_menu_items_from_content U B content s)) [] []))"
    by (rule unique_options_ci) simp_all
  then show ?thesis
    using extract_cases [of U B content s] ai_menu_items_distinct [of U content]
      simple_distinct [of U content]
    by auto
qed

text \<open>
  Claim C6. The typed-menu parser (every line feed replaced by a comma, the text split at
  the commas, each piece stripped, the blank pieces dropped) maps the input
  \<open>"Chicken Rice\nLaksa, Kaya Toast"\<close> to \<open>["Chicken Rice", "Laksa", "Kaya Toast"]\<close>.
\<close>

theorem typed_menu_example:
  "parse_typed_items ascii (cp ''Chicken Rice'' @ [10] @ cp ''Laksa, Kaya Toast'')
   = [cp ''Chicken Rice'', cp ''Laksa'', cp ''Kaya Toast'']"
  by (simp add: parse_typed_items_def replace_def strip_def ascii_def cp_def)

section \<open>Properties of the polling loop\<close>

lemma cp_neq [simp]:
  "cp ''completed'' \<noteq> cp ''failed''" "cp ''completed'' \<noteq> cp ''not_found''"
  "cp ''failed'' \<noteq> cp ''not_found''" "cp ''failed'' \<noteq> cp ''completed''"
  "cp ''not_found'' \<noteq> cp ''completed''" "cp ''not_found'' \<noteq> cp ''failed''"
  by (simp_all add: cp_def)

lemma get_job_status_requests:
  "requests (snd (get_job_status B j s)) = requests s @ [status_request j s]"
  by (auto simp: get_job_status_def send_def report_def status_request_def
           split: http_reply.splits option.splits)

lemma get_job_status_api_key:
  "api_key (snd (get_job_status B j s)) = api_key s"
  by (auto simp: get_job_status_def send_def report_def split: http_reply.splits option.splits)

lemma get_job_status_slept:
  "slept (snd (get_job_status B j s)) = slept s"
  by (auto simp: get_job_status_def send_def report_def split: http_reply.splits option.splits)

lemma get_job_status_fst_cong:
  "length (requests s) = length (requests s') \<Longrightarrow> api_key s = api_key s' \<Longrightarrow>
   fst (get_job_status B j s) = fst (get_job_status B j s')"
  by (auto simp: get_job_status_def send_def report_def get_headers_def
           split: http_reply.splits option.splits)

lemma poll_loop_step:
  assumes "goes_on (fst (get_job_status B j s))"
  shows "\<exists>s'. poll_loop B j n s = poll_loop B j (Suc n) s'
            \<and> requests s' = requests s @ [status_request j s]
            \<and> api_key s' = api_key s \<and> slept s' = slept s + 8"
proof -
  obtain d s1 where g: "get_job_status B j s = (d, s1)" by (cases "get_job_status B j s")
  from g have r: "requests s1 = requests s @ [status_request j s]"
    using get_job_status_requests [of B j s] by simp
  from g have k: "api_key s1 = api_key s" using get_job_status_api_key [of B j s] by simp
  from g have sl: "slept s1 = slept s" using get_job_status_slept [of B j s] by simp
  from assms g have t: "truthy d" by (simp add: goes_on_def)
  from assms g obtain st where st: "py_get d (cp ''status'') (JStr (cp ''unknown'')) = Inr st"
    and nt: "st \<notin> set terminal_statuses"
    by (auto simp: goes_on_def status_of_def split: sum.splits)
  show ?thesis
  proof (cases "st \<in> set [JStr (cp ''pending''), JStr (cp ''running'')]")
    case True
    have "poll_loop B j n s = poll_loop B j (Suc n) (s1\<lparr>slept := slept s1 + 8\<rparr>)"
      using g t st nt True by (subst poll_loop.simps) (simp add: terminal_statuses_def)
    then show ?thesis using r k sl by (intro exI [of _ "s1\<lparr>slept := slept s1 + 8\<rparr>"]) simp
  next
    case False
    have "poll_loop B j n s = poll_loop B j (Suc n)
            ((report (Unknown_status st (Suc n)) s1)\<lparr>slept := slept s1 + 8\<rparr>)"
      using g t st nt False by (subst poll_loop.simps) (simp add: terminal_statuses_def)
    then show ?thesis using r k sl
      by (intro exI [of _ "(report (Unknown_status st (Suc n)) s1)\<lparr>slept := slept s1 + 8\<rparr>"])
         (simp add: report_def)
  qed
qed

lemma status_seen_0: "status_seen B j s 0 = fst (get_job_status B j s)"
  by (simp add: status_seen_def)

lemma status_seen_shift:
  assumes "requests s' = requests s @ [status_request j s]" "api_key s' = api_key s"
  shows "status_seen B j s' i = status_seen B j s (Suc i)"
proof -
  have h: "status_request j s' = status_request j s"
    using assms by (simp add: status_request_def get_headers_def)
  show ?thesis unfolding status_seen_def h
    by (rule get_job_status_fst_cong) (simp_all add: assms)
qed

lemma poll_loop_steps:
  "(\<And>i. i < k \<Longrightarrow> goes_on (status_seen B j s i)) \<Longrightarrow>
   \<exists>s'. poll_loop B j n s = poll_loop B j (n + k) s'
        \<and> requests s' = requests s @ replicate k (status_request j s)
        \<and> api_key s' = api_key s \<and> slept s' = slept s + 8 * k"
proof (induction k arbitrary: s n)
  case 0
  then show ?case by (intro exI [of _ s]) simp
next
  case (Suc k)
  have "goes_on (fst (get_job_status B j s))"
    using Suc.prems [of 0] by (simp add: status_seen_0)
  from poll_loop_step [OF this, of n] obtain s1 where
    s1: "poll_loop B j n s = poll_loop B j (Suc n) s1"
        "requests s1 = requests s @ [status_request j s]"
        "api_key s1 = api_key s" "slept s1 = slept s + 8"
    by blast
  have sh: "\<And>i. status_seen B j s1 i = status_seen B j s (Suc i)"
    using status_seen_shift s1 by blast
  have rq: "status_request j s1 = status_request j s"
    using s1 by (simp add: status_request_def get_headers_def)
  have "\<And>i. i < k \<Longrightarrow> goes_on (status_seen B j s1 i)"
    using Suc.prems sh by simp
  from Suc.IH [OF this, of "Suc n"] obtain s' where
    s': "poll_loop B j (Suc n) s1 = poll_loop B j (Suc n + k) s'"
        "requests s' = requests s1 @ replicate k (status_request j s1)"
        "api_key s' = api_key s1" "slept s' = slept s1 + 8 * k"
    by blast
  show ?case using s1 s' rq
    by (intro exI [of _ s']) (simp add: replicate_append_same)
qed

lemma poll_prefix:
  assumes "\<And>i. i < k \<Longrightarrow> goes_on (status_seen B j s i)"
  obtains s1 where "poll_job_until_complete B j s = poll_loop B j k s1"
    and "requests s1 = requests s @ replicate k (status_request j s)"
    and "slept s1 = slept s + 8 * k"
    and "status_request j s1 = status_request j s"
    and "fst (get_job_status B j s1) = status_seen B j s k"
proof -
  from poll_loop_steps [of k B j s 0] assms obtain s1 where
    s1: "poll_loop B j 0 s = poll_loop B j (0 + k) s1"
        "requests s1 = requests s @ replicate k (status_request j s)"
        "api_key s1 = api_key s" "slept s1 = slept s + 8 * k"
    by blast
  have rq: "status_request j s1 = status_request j s"
    using s1 by (simp add: status_request_def get_headers_def)
  have seen: "fst (get_job_status B j s1) = status_seen B j s k"
    unfolding status_seen_def by (rule get_job_status_fst_cong) (simp_all add: s1)
  show ?thesis using that [of s1] s1 rq seen by (simp add: poll_job_until_complete_def)
qed

lemma poll_loop_returns_stop:
  assumes "poll_loop B0 j0 n0 s0 = Some y0"
  shows "\<exists>i. \<not> goes_on (status_seen B0 j0 s0 i)"
proof (rule poll_loop.raw_induct [OF _ assms], goal_cases)
  case (1 loop B j n s y)
  show ?case
  proof (cases "goes_on (fst (get_job_status B j s))")
    case False
    then show ?thesis by (intro exI [of _ 0]) (simp add: status_seen_0)
  next
    case True
    obtain d s1 where g: "get_job_status B j s = (d, s1)" by (cases "get_job_status B j s")
    from g have r: "requests s1 = requests s @ [status_request j s]"
      using get_job_status_requests [of B j s] by simp
    from g have k: "api_key s1 = api_key s" using get_job_status_api_key [of B j s] by simp
    from True g have t: "truthy d" by (simp add: goes_on_def)
    from True g obtain st where st: "py_get d (cp ''status'') (JStr (cp ''unknown'')) = Inr st"
      and nt: "st \<notin> set terminal_statuses"
      by (auto simp: goes_on_def status_of_def split: sum.splits)
    from 1(2) g t st nt have
      "\<exists>s'. loop B j (Suc n) s' = Some y \<and> requests s' = requests s1 \<and> api_key s' = api_key s1"
      by (auto simp: terminal_statuses_def report_def split: if_splits)
    then obtain s' where s': "loop B j (Suc n) s' = Some y"
      "requests s' = requests s1" "api_key s' = api_key s1" by blast
    from 1(1) [OF s'(1)] obtain i where i: "\<not> goes_on (status_seen B j s' i)" by blast
    have "status_seen B j s' i = status_seen B j s (Suc i)"
      using status_seen_shift [of s' s j B i] s' r k by simp
    with i show ?thesis by auto
  qed
qed

lemma status_completed_truthy:
  "status_of d = Inr (JStr (cp ''completed'')) \<Longrightarrow> truthy d"
  by (cases d) (auto simp: status_of_def cp_def split: option.splits)

lemma poll_loop_completed:
  assumes "status_of (fst (get_job_status B j s)) = Inr (JStr (cp ''completed''))"
  shows "poll_loop B j n s = Some (Inr (fst (get_job_status B j s)), snd (get_job_status B j s))"
proof -
  obtain d s1 where g: "get_job_status B j s = (d, s1)" by (cases "get_job_status B j s")
  from assms g have st: "py_get d (cp ''status'') (JStr (cp ''unknown'')) = Inr (JStr (cp ''completed''))"
    by (simp add: status_of_def)
  from assms g have t: "truthy d" using status_completed_truthy by simp
  show ?thesis using g t st by (subst poll_loop.simps) simp
qed

lemma status_failed_truthy:
  "status_of d = Inr (JStr (cp ''failed'')) \<or> status_of d = Inr (JStr (cp ''not_found''))
   \<Longrightarrow> truthy d"
  by (cases d) (auto simp: status_of_def cp_def split: option.splits)

lemma poll_loop_failed:
  assumes "status_of (fst (get_job_status B j s)) = Inr (JStr (cp ''failed''))
           \<or> status_of (fst (get_job_status B j s)) = Inr (JStr (cp ''not_found''))"
  shows "\<exists>s'. poll_loop B j n s = Some (Inr JNull, s')
            \<and> requests s' = requests s @ [status_request j s] \<and> slept s' = slept s"
proof -
  obtain d s1 where g: "get_job_status B j s = (d, s1)" by (cases "get_job_status B j s")
  from g have r: "requests s1 = requests s @ [status_request j s]"
    using get_job_status_requests [of B j s] by simp
  from g have sl: "slept s1 = slept s" using get_job_status_slept [of B j s] by simp
  from assms g have t: "truthy d" using status_failed_truthy by simp
  from assms g have st: "py_get d (cp ''status'') (JStr (cp ''unknown'')) = Inr (JStr (cp ''failed''))
      \<or> py_get d (cp ''status'') (JStr (cp ''unknown'')) = Inr (JStr (cp ''not_found''))"
    by (simp add: status_of_def)
  from t st obtain kvs where d: "d = JDict kvs" by (cases d) auto
  have e: "\<exists>err. py_get d (cp ''error'') (JStr (cp ''Unknown error'')) = Inr err"
    using d by (simp split: option.splits)
  then obtain err where err: "py_get d (cp ''error'') (JStr (cp ''Unknown error'')) = Inr err"
    by blast
  from st show ?thesis
  proof
    assume f: "py_get d (cp ''status'') (JStr (cp ''unknown'')) = Inr (JStr (cp ''failed''))"
    have "poll_loop B j n s = Some (Inr JNull, report (Job_failed err) s1)"
      using g t f err by (subst poll_loop.simps) simp
    then show ?thesis using r sl by (simp add: report_def)
  next
    assume f: "py_get d (cp ''status'') (JStr (cp ''unknown'')) = Inr (JStr (cp ''not_found''))"
    have "poll_loop B j n s = Some (Inr JNull, report Job_not_found s1)"
      using g t f by (subst poll_loop.simps) simp
    then show ?thesis using r sl by (simp add: report_def)
  qed
qed

lemma poll_loop_no_data:
  assumes "\<not> truthy (fst (get_job_status B j s))"
  shows "\<exists>s'. poll_loop B j n s = Some (Inr JNull, s')
            \<and> requests s' = requests s @ [status_request j s] \<and> slept s' = slept s
            \<and> last (events s') = Could_not_get_status (Suc n)"
proof -
  obtain d s1 where g: "get_job_status B j s = (d, s1)" by (cases "get_job_status B j s")
  from g have r: "requests s1 = requests s @ [status_request j s]"
    using get_job_status_requests [of B j s] by simp
  from g have sl: "slept s1 = slept s" using get_job_status_slept [of B j s] by simp
  have "poll_loop B j n s = Some (Inr JNull, report (Could_not_get_status (Suc n)) s1)"
    using g assms by (subst poll_loop.simps) simp
  then show ?thesis using r sl by (simp add: report_def)
qed

lemmas model_eval =
  status_seen_def get_job_status_def send_def get_headers_def status_request_def
  initial_state_def scripted_def status_reply_def goes_on_def status_of_def
  terminal_statuses_def cp_def job_1_def not_found_payload_def report_def

text \<open>
  Claim C1 says that on status data that never reaches a terminal status the poll stops
  after at most 100 requests, reports a timeout and returns nothing. The loop of the code
  is \<open>while True\<close> and never reads \<open>max_polls\<close>: as long as the status data goes on, the
  poll sends the next request, and when it goes on forever the poll does not return.
\<close>

theorem poll_never_times_out:
  assumes "\<And>i. goes_on (status_seen B job_id s i)"
  shows "poll_job_until_complete B job_id s = None"
proof (cases "poll_job_until_complete B job_id s")
  case None
  then show ?thesis .
next
  case (Some y)
  then have "poll_loop B job_id 0 s = Some y" by (simp add: poll_job_until_complete_def)
  from poll_loop_returns_stop [OF this] assms show ?thesis by blast
qed

text \<open>
  The theorem at a backend that answers \<open>pending\<close> to every request.
\<close>

theorem poll_never_times_out_witness:
  "(\<forall>i. goes_on (status_seen (scripted [] (status_reply ''pending'')) job_1 initial_state i))
   \<and> poll_job_until_complete (scripted [] (status_reply ''pending'')) job_1 initial_state = None"
proof -
  have h: "\<And>i. goes_on (status_seen (scripted [] (status_reply ''pending'')) job_1 initial_state i)"
    by (simp add: model_eval)
  show ?thesis using h poll_never_times_out [OF h] by simp
qed

text \<open>
  Claim C3. When the status data goes on for \<open>k\<close> requests and the next one carries the
  status \<open>completed\<close>, the poll returns that status data as \<open>get_job_status\<close> gave it, after
  exactly \<open>k + 1\<close> status requests.
\<close>

theorem poll_returns_completed_payload:
  assumes "\<And>i. i < k \<Longrightarrow> goes_on (status_seen B job_id s i)"
    and "status_of (status_seen B job_id s k) = Inr (JStr (cp ''completed''))"
  shows "\<exists>s'. poll_job_until_complete B job_id s = Some (Inr (status_seen B job_id s k), s')
            \<and> requests s' = requests s @ replicate (Suc k) (status_request job_id s)"
proof -
  from poll_loop_steps [of k B job_id s 0] assms(1) obtain s1 where
    s1: "poll_loop B job_id 0 s = poll_loop B job_id (0 + k) s1"
        "requests s1 = requests s @ replicate k (status_request job_id s)"
        "api_key s1 = api_key s"
    by blast
  have rq: "status_request job_id s1 = status_request job_id s"
    using s1 by (simp add: status_request_def get_headers_def)
  have seen: "fst (get_job_status B job_id s1) = status_seen B job_id s k"
    unfolding status_seen_def by (rule get_job_status_fst_cong) (simp_all add: s1)
  with assms(2) have "status_of (fst (get_job_status B job_id s1)) = Inr (JStr (cp ''completed''))"
    by simp
  from poll_loop_completed [OF this, of k] have
    "poll_loop B job_id k s1 = Some (Inr (status_seen B job_id s k), snd (get_job_status B job_id s1))"
    using seen by simp
  moreover have "requests (snd (get_job_status B job_id s1))
                 = requests s @ replicate (Suc k) (status_request job_id s)"
    using get_job_status_requests [of B job_id s1] s1 rq
    by (simp add: replicate_append_same)
  ultimately show ?thesis using s1(1) by (simp add: poll_job_until_complete_def)
qed

text \<open>
  The theorem at a backend that answers \<open>pending\<close>, \<open>running\<close>, \<open>completed\<close>.
\<close>

theorem poll_returns_completed_payload_witness:
  "\<exists>s'. poll_job_until_complete
          (scripted [status_reply ''pending'', status_reply ''running''] (status_reply ''completed''))
          job_1 initial_state
        = Some (Inr (JDict [(cp ''status'', JStr (cp ''completed''))]), s')
      \<and> requests s' = replicate 3 (Get_job job_1, Headers None)"
proof -
  let ?B = "scripted [status_reply ''pending'', status_reply ''running''] (status_reply ''completed'')"
  have h: "\<And>i. i < 2 \<Longrightarrow> goes_on (status_seen ?B job_1 initial_state i)"
  proof -
    fix i :: nat
    assume "i < 2"
    then have "i = 0 \<or> i = 1" by auto
    then show "goes_on (status_seen ?B job_1 initial_state i)"
      by (auto simp: model_eval)
  qed
  have c: "status_of (status_seen ?B job_1 initial_state 2) = Inr (JStr (cp ''completed''))"
    by (simp add: model_eval)
  have v: "status_seen ?B job_1 initial_state 2 = JDict [(cp ''status'', JStr (cp ''completed''))]"
    by (simp add: model_eval)
  have r: "status_request job_1 initial_state = (Get_job job_1, Headers None)"
    by (simp add: status_request_def get_headers_def initial_state_def)
  have i: "requests initial_state = []" by (simp add: initial_state_def)
  show ?thesis
    using poll_returns_completed_payload [of 2 ?B job_1 initial_state, OF h c]
    unfolding v r i by (simp add: eval_nat_numeral)
qed

text \<open>
  Claim C4. When the status data goes on for \<open>k\<close> requests and the next one carries the
  status \<open>failed\<close> or \<open>not_found\<close>, the poll returns \<open>None\<close>; it has sent exactly \<open>k + 1\<close>
  status requests, none after the observation, and has not slept after it.
\<close>

theorem poll_stops_at_failed_or_not_found:
  assumes "\<And>i. i < k \<Longrightarrow> goes_on (status_seen B job_id s i)"
    and "status_of (status_seen B job_id s k) = Inr (JStr (cp ''failed''))
         \<or> status_of (status_seen B job_id s k) = Inr (JStr (cp ''not_found''))"
  shows "\<exists>s'. poll_job_until_complete B job_id s = Some (Inr JNull, s')
            \<and> requests s' = requests s @ replicate (Suc k) (status_request job_id s)
            \<and> slept s' = slept s + 8 * k"
proof -
  from poll_prefix [OF assms(1)] obtain s1 where
    s1: "poll_job_until_complete B job_id s = poll_loop B job_id k s1"
        "requests s1 = requests s @ replicate k (status_request job_id s)"
        "slept s1 = slept s + 8 * k"
        "status_request job_id s1 = status_request job_id s"
        "fst (get_job_status B job_id s1) = status_seen B job_id s k"
    by blast
  from assms(2) s1(5) have
    "status_of (fst (get_job_status B job_id s1)) = Inr (JStr (cp ''failed''))
     \<or> status_of (fst (get_job_status B job_id s1)) = Inr (JStr (cp ''not_found''))"
    by simp
  from poll_loop_failed [OF this, of k] obtain s' where
    "poll_loop B job_id k s1 = Some (Inr JNull, s')"
    "requests s' = requests s1 @ [status_request job_id s1]" "slept s' = slept s1"
    by blast
  then show ?thesis using s1 by (simp add: replicate_append_same)
qed

text \<open>
  The theorem at a backend that answers \<open>pending\<close>, then \<open>failed\<close>.
\<close>

theorem poll_stops_at_failed_or_not_found_witness:
  "\<exists>s'. poll_job_until_complete (scripted [status_reply ''pending''] (status_reply ''failed''))
          job_1 initial_state
        = Some (Inr JNull, s')
      \<and> requests s' = replicate 2 (Get_job job_1, Headers None) \<and> slept s' = 8"
proof -
  let ?B = "scripted [status_reply ''pending''] (status_reply ''failed'')"
  have h: "\<And>i. i < 1 \<Longrightarrow> goes_on (status_seen ?B job_1 initial_state i)"
    by (simp add: model_eval)
  have c: "status_of (status_seen ?B job_1 initial_state 1) = Inr (JStr (cp ''failed''))
           \<or> status_of (status_seen ?B job_1 initial_state 1) = Inr (JStr (cp ''not_found''))"
    by (simp add: model_eval)
  have r: "status_request job_1 initial_state = (Get_job job_1, Headers None)"
    by (simp add: status_request_def get_headers_def initial_state_def)
  have i: "requests initial_state = []" "slept initial_state = 0" by (simp_all add: initial_state_def)
  show ?thesis
    using poll_stops_at_failed_or_not_found [of 1 ?B job_1 initial_state, OF h c]
    unfolding r i by (simp add: eval_nat_numeral)
qed

text \<open>
  Claim C9. When \<open>get_job_status\<close> returns no data at some request, the poll reports that
  it could not get the status and returns \<open>None\<close> at once: that request is its last one and
  is not sent again.
\<close>

theorem poll_aborts_on_failed_request:
  assumes "\<And>i. i < k \<Longrightarrow> goes_on (status_seen B job_id s i)"
    and "status_seen B job_id s k = JNull"
  shows "\<exists>s'. poll_job_until_complete B job_id s = Some (Inr JNull, s')
            \<and> requests s' = requests s @ replicate (Suc k) (status_request job_id s)
            \<and> slept s' = slept s + 8 * k
            \<and> last (events s') = Could_not_get_status (Suc k)"
proof -
  from poll_prefix [OF assms(1)] obtain s1 where
    s1: "poll_job_until_complete B job_id s = poll_loop B job_id k s1"
        "requests s1 = requests s @ replicate k (status_request job_id s)"
        "slept s1 = slept s + 8 * k"
        "status_request job_id s1 = status_request job_id s"
        "fst (get_job_status B job_id s1) = status_seen B job_id s k"
    by blast
  from assms(2) s1(5) have "\<not> truthy (fst (get_job_status B job_id s1))" by simp
  from poll_loop_no_data [OF this, of k] obtain s' where
    "poll_loop B job_id k s1 = Some (Inr JNull, s')"
    "requests s' = requests s1 @ [status_request job_id s1]" "slept s' = slept s1"
    "last (events s') = Could_not_get_status (Suc k)"
    by blast
  then show ?thesis using s1 by (simp add: replicate_append_same)
qed

text \<open>
  The theorem at a backend that answers \<open>pending\<close>, \<open>running\<close> and then 500.
\<close>

theorem poll_aborts_on_failed_request_witness:
  "\<exists>s'. poll_job_until_complete
          (scripted [status_reply ''pending'', status_reply ''running''] (Response 500 None))
          job_1 initial_state
        = Some (Inr JNull, s')
      \<and> requests s' = replicate 3 (Get_job job_1, Headers None) \<and> slept s' = 16
      \<and> last (events s') = Could_not_get_status 3"
proof -
  let ?B = "scripted [status_reply ''pending'', status_reply ''running''] (Response 500 None)"
  have h: "\<And>i. i < 2 \<Longrightarrow> goes_on (status_seen ?B job_1 initial_state i)"
  proof -
    fix i :: nat
    assume "i < 2"
    then have "i = 0 \<or> i = 1" by auto
    then show "goes_on (status_seen ?B job_1 initial_state i)"
      by (auto simp: model_eval)
  qed
  have c: "status_seen ?B job_1 initial_state 2 = JNull"
    by (simp add: model_eval)
  have r: "status_request job_1 initial_state = (Get_job job_1, Headers None)"
    by (simp add: status_request_def get_headers_def initial_state_def)
  have i: "requests initial_state = []" "slept initial_state = 0" by (simp_all add: initial_state_def)
  show ?thesis
    using poll_aborts_on_failed_request [of 2 ?B job_1 initial_state, OF h c]
    unfolding r i by (simp add: eval_nat_numeral)
qed

text \<open>
  Claim C10. On a 404 response \<open>get_job_status\<close> reports nothing and returns the payload
  \<open>{"status": "not_found", "error": "Job not found or expired"}\<close>, whatever the body of the
  response is.
\<close>

theorem get_job_status_404:
  assumes "B (length (requests s)) (status_request job_id s) = Response 404 body"
  shows "get_job_status B job_id s =
           (JDict [(cp ''status'', JStr (cp ''not_found'')),
                   (cp ''error'', JStr (cp ''Job not found or expired''))],
            s\<lparr>requests := requests s @ [status_request job_id s]\<rparr>)"
  using assms
  by (simp add: get_job_status_def send_def status_request_def not_found_payload_def)

text \<open>
  The theorem at a 404 response whose body says \<open>completed\<close>.
\<close>

theorem get_job_status_404_witness:
  "get_job_status (scripted [] (Response 404 (Some (JDict [(cp ''status'', JStr (cp ''completed''))]))))
     job_1 initial_state
   = (JDict [(cp ''status'', JStr (cp ''not_found'')),
             (cp ''error'', JStr (cp ''Job not found or expired''))],
      initial_state\<lparr>requests := [(Get_job job_1, Headers None)]\<rparr>)"
proof -
  let ?B = "scripted [] (Response 404 (Some (JDict [(cp ''status'', JStr (cp ''completed''))])))"
  have h: "?B (length (requests initial_state)) (status_request job_1 initial_state)
           = Response 404 (Some (JDict [(cp ''status'', JStr (cp ''completed''))]))"
    by (simp add: scripted_def)
  have r: "status_request job_1 initial_state = (Get_job job_1, Headers None)"
    by (simp add: status_request_def get_headers_def initial_state_def)
  have i: "requests initial_state = []" by (simp add: initial_state_def)
  show ?thesis
    using get_job_status_404 [of ?B initial_state job_1, OF h] unfolding r i by simp
qed

section \<open>Properties of the main flow\<close>

lemma health_false:
  assumes "\<not> alive (B (length (requests s)) (Get_health, No_headers))"
    and "\<not> alive (B (Suc (length (requests s))) (Get_root, No_headers))"
  shows "fst (check_backend_health B s) = False
         \<and> (requests (snd (check_backend_health B s)) = requests s @ [(Get_health, No_headers)]
            \<or> requests (snd (check_backend_health B s))
               = requests s @ [(Get_health, No_headers), (Get_root, No_headers)])"
  using assms
  by (auto simp: check_backend_health_def send_def split: http_reply.splits)

lemma check_backend_health_requests:
  "requests (snd (check_backend_health B s)) = requests s @ [(Get_health, No_headers)]
   \<or> requests (snd (check_backend_health B s))
      = requests s @ [(Get_health, No_headers), (Get_root, No_headers)]"
  by (auto simp: check_backend_health_def send_def split: http_reply.splits)

lemma test_api_key_requests:
  "\<exists>added. requests (snd (test_api_key B key s)) = requests s @ added
           \<and> \<not> list_ex is_analysis_request added"
  by (auto simp: test_api_key_def send_def Let_def split: http_reply.splits option.splits)

lemma view_guidelines_requests:
  "requests (view_guidelines B category s) = requests s @ [(Get_guidelines category, get_headers s)]"
  by (auto simp: view_guidelines_def send_def report_def split: http_reply.splits option.splits)

lemma main_sidebar_halts:
  "\<not> fst (check_backend_health B s) \<Longrightarrow>
   main_sidebar U B u s = (Halt Returned, report Backend_disconnected (snd (check_backend_health B s)))"
  by (cases "check_backend_health B s") (simp add: main_sidebar_def)

lemma main_sidebar_goes_on:
  "fst (check_backend_health B s) \<Longrightarrow> fst (main_sidebar U B u s) = Next"
  by (cases "check_backend_health B s") (simp add: main_sidebar_def Let_def)

lemma main_sidebar_requests:
  "\<exists>added. requests (snd (main_sidebar U B u s)) = requests s @ added
           \<and> \<not> list_ex is_analysis_request added"
proof -
  obtain h s1 where c: "check_backend_health B s = (h, s1)"
    by (cases "check_backend_health B s")
  from check_backend_health_requests [of B s] c obtain a1 where
    a1: "requests s1 = requests s @ a1" "\<not> list_ex is_analysis_request a1"
    by auto
  show ?thesis
  proof (cases h)
    case False
    then have "main_sidebar U B u s = (Halt Returned, report Backend_disconnected s1)"
      using c by (simp add: main_sidebar_def)
    then show ?thesis using a1 by (simp add: report_def)
  next
    case True
    define s2 where "s2 = (if api_key_input u \<noteq> api_key s1
                  then s1\<lparr>api_key := api_key_input u, api_key_valid := False\<rparr> else s1)"
    define s3 where "s3 = (if test_api_key_clicked u \<and> strip U (api_key_input u) \<noteq> []
                  then (case test_api_key B (Some (api_key_input u)) s2 of (is_valid, s') \<Rightarrow>
                          if is_valid then s'\<lparr>api_key_valid := True\<rparr>
                          else report Invalid_api_key (s'\<lparr>api_key_valid := False\<rparr>))
                  else s2)"
    define s4 where "s4 = (if view_guidelines_clicked u then view_guidelines B (selected_category u) s3
                  else s3)"
    have m: "main_sidebar U B u s = (Next, s4)"
      using c True by (simp add: main_sidebar_def Let_def s2_def s3_def s4_def)
    have r2: "requests s2 = requests s1" by (simp add: s2_def)
    obtain a3 where a3: "requests s3 = requests s2 @ a3" "\<not> list_ex is_analysis_request a3"
    proof (cases "test_api_key_clicked u \<and> strip U (api_key_input u) \<noteq> []")
      case False
      then have "requests s3 = requests s2 @ []" by (auto simp: s3_def)
      then show ?thesis using that [of "[]"] by simp
    next
      case True
      obtain v s' where t: "test_api_key B (Some (api_key_input u)) s2 = (v, s')"
        by (cases "test_api_key B (Some (api_key_input u)) s2")
      from test_api_key_requests [of B "Some (api_key_input u)" s2] t obtain a where
        a: "requests s' = requests s2 @ a" "\<not> list_ex is_analysis_request a" by auto
      have "requests s3 = requests s'" using True t by (simp add: s3_def report_def)
      then show ?thesis using that [of a] a by simp
    qed
    obtain a4 where a4: "requests s4 = requests s3 @ a4" "\<not> list_ex is_analysis_request a4"
    proof (cases "view_guidelines_clicked u")
      case False
      then have "requests s4 = requests s3 @ []" by (simp add: s4_def)
      then show ?thesis using that [of "[]"] by simp
    next
      case True
      then have "requests s4 = requests s3 @ [(Get_guidelines (selected_category u), get_headers s3)]"
        by (simp add: s4_def view_guidelines_requests)
      then show ?thesis using that [of "[(Get_guidelines (selected_category u), get_headers s3)]"]
        by simp
    qed
    have "requests s4 = requests s @ (a1 @ a3 @ a4)" using a1 r2 a3 a4 by simp
    moreover have "\<not> list_ex is_analysis_request (a1 @ a3 @ a4)" using a1 a3 a4 by simp
    ultimately show ?thesis using m by (intro exI [of _ "a1 @ a3 @ a4"]) simp
  qed
qed

lemma main_gate_stops:
  "\<not> fst (check_backend_health B s) \<Longrightarrow>
   main_gate B s = (Halt Stopped, snd (check_backend_health B s))"
  by (cases "check_backend_health B s") (simp add: main_gate_def)

lemma main_returns_at_sidebar:
  assumes "\<not> fst (check_backend_health B s)"
  shows "\<exists>s'. main U B u s = Some (Returned, s')
            \<and> (requests s' = requests s @ [(Get_health, No_headers)]
                \<or> requests s' = requests s @ [(Get_health, No_headers), (Get_root, No_headers)])
            \<and> \<not> list_ex is_analysis_request (drop (length (requests s)) (requests s'))"
proof -
  let ?s' = "report Backend_disconnected (snd (check_backend_health B s))"
  have m: "main U B u s = Some (Returned, ?s')"
    using main_sidebar_halts [OF assms, of U u] by (simp add: main_def)
  have r: "requests ?s' = requests s @ [(Get_health, No_headers)]
           \<or> requests ?s' = requests s @ [(Get_health, No_headers), (Get_root, No_headers)]"
    using check_backend_health_requests [of B s] by (simp add: report_def)
  then have "\<not> list_ex is_analysis_request (drop (length (requests s)) (requests ?s'))"
    by auto
  with m r show ?thesis by blast
qed

lemma main_stops_at_gate:
  assumes "main_sidebar U B u s = (Next, s1)"
    and "\<not> fst (check_backend_health B s1)"
  shows "\<exists>s'. main U B u s = Some (Stopped, s')
            \<and> (requests s' = requests s1 @ [(Get_health, No_headers)]
                \<or> requests s' = requests s1 @ [(Get_health, No_headers), (Get_root, No_headers)])
            \<and> \<not> list_ex is_analysis_request (drop (length (requests s)) (requests s'))"
proof -
  let ?s' = "snd (check_backend_health B s1)"
  have m: "main U B u s = Some (Stopped, ?s')"
    using assms(1) main_gate_stops [OF assms(2)] by (simp add: main_def)
  have r: "requests ?s' = requests s1 @ [(Get_health, No_headers)]
           \<or> requests ?s' = requests s1 @ [(Get_health, No_headers), (Get_root, No_headers)]"
    using check_backend_health_requests [of B s1] by simp
  from main_sidebar_requests [of U B u s] assms(1) obtain added where
    a: "requests s1 = requests s @ added" "\<not> list_ex is_analysis_request added"
    by auto
  from r a have "\<not> list_ex is_analysis_request (drop (length (requests s)) (requests ?s'))"
    by auto
  with m r show ?thesis by blast
qed

text \<open>
  Claim C7. When neither \<open>GET /health\<close> nor the fallback \<open>GET /\<close> is answered with 200
  (a response with another code, a connection error or any exception),
  \<open>check_backend_health\<close> returns false. \<open>main\<close> checks the backend twice. When the check in
  the sidebar fails, \<open>main\<close> returns there, having sent the health requests only. When that
  check passes and the check before the main content fails, \<open>main\<close> stops there; the
  requests of the run are those of the sidebar and the health requests. In both cases
  no menu analysis is requested; and a run that does request a menu analysis has passed
  both checks.
\<close>

theorem unreachable_backend_halts_main:
  "(\<not> alive (B (length (requests s)) (Get_health, No_headers))
    \<and> \<not> alive (B (Suc (length (requests s))) (Get_root, No_headers))
    \<longrightarrow> fst (check_backend_health B s) = False
        \<and> (\<exists>s'. main U B u s = Some (Returned, s')
               \<and> (requests s' = requests s @ [(Get_health, No_headers)]
                   \<or> requests s' = requests s @ [(Get_health, No_headers), (Get_root, No_headers)])
               \<and> \<not> list_ex is_analysis_request (drop (length (requests s)) (requests s'))))
   \<and> (main_sidebar U B u s = (Next, s1)
      \<and> \<not> alive (B (length (requests s1)) (Get_health, No_headers))
      \<and> \<not> alive (B (Suc (length (requests s1))) (Get_root, No_headers))
    \<longrightarrow> fst (check_backend_health B s1) = False
        \<and> (\<exists>s'. main U B u s = Some (Stopped, s')
               \<and> (requests s' = requests s1 @ [(Get_health, No_headers)]
                   \<or> requests s' = requests s1 @ [(Get_health, No_headers), (Get_root, No_headers)])
               \<and> \<not> list_ex is_analysis_request (drop (length (requests s)) (requests s'))))
   \<and> (main U B u s = Some (out, s2)
      \<and> list_ex is_analysis_request (drop (length (requests s)) (requests s2))
    \<longrightarrow> fst (check_backend_health B s)
        \<and> fst (check_backend_health B (snd (main_sidebar U B u s))))"
proof (intro conjI impI)
  assume a: "\<not> alive (B (length (requests s)) (Get_health, No_headers))
    \<and> \<not> alive (B (Suc (length (requests s))) (Get_root, No_headers))"
  then show f: "fst (check_backend_health B s) = False"
    using health_false [of B s] by simp
  then show "\<exists>s'. main U B u s = Some (Returned, s')
               \<and> (requests s' = requests s @ [(Get_health, No_headers)]
                   \<or> requests s' = requests s @ [(Get_health, No_headers), (Get_root, No_headers)])
               \<and> \<not> list_ex is_analysis_request (drop (length (requests s)) (requests s'))"
    using main_returns_at_sidebar [of B s U u] by simp
next
  assume a: "main_sidebar U B u s = (Next, s1)
      \<and> \<not> alive (B (length (requests s1)) (Get_health, No_headers))
      \<and> \<not> alive (B (Suc (length (requests s1))) (Get_root, No_headers))"
  then show f: "fst (check_backend_health B s1) = False"
    using health_false [of B s1] by simp
  then show "\<exists>s'. main U B u s = Some (Stopped, s')
               \<and> (requests s' = requests s1 @ [(Get_health, No_headers)]
                   \<or> requests s' = requests s1 @ [(Get_health, No_headers), (Get_root, No_headers)])
               \<and> \<not> list_ex is_analysis_request (drop (length (requests s)) (requests s'))"
    using main_stops_at_gate [of U B u s s1] a by simp
next
  assume a: "main U B u s = Some (out, s2)
      \<and> list_ex is_analysis_request (drop (length (requests s)) (requests s2))"
  show c1: "fst (check_backend_health B s)"
  proof (rule ccontr)
    assume "\<not> fst (check_backend_health B s)"
    from main_returns_at_sidebar [OF this, of U u] a show False by auto
  qed
  show "fst (check_backend_health B (snd (main_sidebar U B u s)))"
  proof (rule ccontr)
    assume n: "\<not> fst (check_backend_health B (snd (main_sidebar U B u s)))"
    have "main_sidebar U B u s = (Next, snd (main_sidebar U B u s))"
      using main_sidebar_goes_on [OF c1, of U u] by (cases "main_sidebar U B u s") simp
    from main_stops_at_gate [OF this n] a show False by auto
  qed
qed

text \<open>
  The theorem for a user with a validated key who has typed a menu and submitted it:
  at a backend that cannot be connected to; at one that answers the first health request
  with 200, the second with 500 and then times out; and at one that answers every request,
  where the same run does request the analysis.
\<close>

theorem unreachable_backend_halts_main_witness:
  "(\<exists>s'. main ascii (scripted [] Raises_ConnectionError) typed_with_key validated_state
          = Some (Returned, s')
        \<and> requests s' = [(Get_health, No_headers)])
   \<and> main_sidebar ascii (scripted [Response 200 None, Response 500 None] Raises_Timeout)
        typed_with_key validated_state
      = (Next, validated_state\<lparr>requests := [(Get_health, No_headers)]\<rparr>)
   \<and> (\<exists>s'. main ascii (scripted [Response 200 None, Response 500 None] Raises_Timeout)
            typed_with_key validated_state
          = Some (Stopped, s')
        \<and> requests s' = [(Get_health, No_headers), (Get_health, No_headers), (Get_root, No_headers)])
   \<and> (\<exists>s2. main ascii answers_everything typed_with_key validated_state = Some (Finished, s2)
         \<and> list_ex is_analysis_request (requests s2))
   \<and> fst (check_backend_health answers_everything validated_state)
   \<and> fst (check_backend_health answers_everything
             (snd (main_sidebar ascii answers_everything typed_with_key validated_state)))"
proof -
  let ?B1 = "scripted [] Raises_ConnectionError"
  let ?B2 = "scripted [Response 200 None, Response 500 None] Raises_Timeout"
  let ?s1 = "validated_state\<lparr>requests := [(Get_health, No_headers)]\<rparr>"
  have i: "requests validated_state = []" by (simp add: validated_state_def initial_state_def)
  have a1: "\<not> alive (?B1 (length (requests validated_state)) (Get_health, No_headers))
            \<and> \<not> alive (?B1 (Suc (length (requests validated_state))) (Get_root, No_headers))"
    by (simp add: scripted_def)
  have n1: "\<And>s'. main ascii ?B1 typed_with_key validated_state = Some (Returned, s')
              \<Longrightarrow> requests s' \<noteq> [(Get_health, No_headers), (Get_root, No_headers)]"
    by (auto simp: main_def main_sidebar_def check_backend_health_def send_def scripted_def
          report_def i)
  have p1: "\<exists>s'. main ascii ?B1 typed_with_key validated_state = Some (Returned, s')
              \<and> requests s' = [(Get_health, No_headers)]"
    using unreachable_backend_halts_main
            [where B = ?B1 and s = validated_state and U = ascii and u = typed_with_key,
             THEN conjunct1, THEN mp, OF a1] n1
    unfolding i by auto
  have sb: "main_sidebar ascii ?B2 typed_with_key validated_state = (Next, ?s1)"
    by (simp add: main_sidebar_def check_backend_health_def send_def scripted_def
          typed_with_key_def typed_and_submitted_def validated_state_def initial_state_def)
  have a2: "\<not> alive (?B2 (length (requests ?s1)) (Get_health, No_headers))
            \<and> \<not> alive (?B2 (Suc (length (requests ?s1))) (Get_root, No_headers))"
    by (simp add: scripted_def)
  have n2: "\<And>s'. main ascii ?B2 typed_with_key validated_state = Some (Stopped, s')
              \<Longrightarrow> requests s' \<noteq> requests ?s1 @ [(Get_health, No_headers)]"
    using sb
    by (auto simp: main_def main_gate_def check_backend_health_def send_def scripted_def
          split: if_splits)
  have p2: "\<exists>s'. main ascii ?B2 typed_with_key validated_state = Some (Stopped, s')
              \<and> requests s' = [(Get_health, No_headers), (Get_health, No_headers), (Get_root, No_headers)]"
    using unreachable_backend_halts_main
            [where B = ?B2 and s = validated_state and U = ascii and u = typed_with_key
               and ?s1.0 = ?s1,
             THEN conjunct2, THEN conjunct1, THEN mp, OF conjI [OF sb a2]] n2
    unfolding i by auto
  have e: "case main ascii answers_everything typed_with_key validated_state of
             None \<Rightarrow> False
           | Some (out, s2) \<Rightarrow> out = Finished \<and> list_ex is_analysis_request (requests s2)"
    by code_simp
  then obtain s2 where
    m3: "main ascii answers_everything typed_with_key validated_state = Some (Finished, s2)"
    and r3: "list_ex is_analysis_request (requests s2)"
    by (auto split: option.splits)
  have r3': "list_ex is_analysis_request (drop (length (requests validated_state)) (requests s2))"
    using r3 unfolding i by simp
  have p3: "fst (check_backend_health answers_everything validated_state)
            \<and> fst (check_backend_health answers_everything
                 (snd (main_sidebar ascii answers_everything typed_with_key validated_state)))"
    using unreachable_backend_halts_main
            [where B = answers_everything and s = validated_state and U = ascii
               and u = typed_with_key and out = Finished and ?s2.0 = s2,
             THEN conjunct2, THEN conjunct2, THEN mp, OF conjI [OF m3 r3']]
    by simp
  show ?thesis using p1 sb p2 m3 r3 p3 by blast
qed

lemma ai_call_succeeds_iff:
  "ai_call_succeeds (Response code (Some j))
   = (code = 200 \<and> (\<exists>v. py_index j (cp ''recommendations'') = Inr v))"
  by (cases j) (auto split: option.splits)

text \<open>
  Claim C8. When the AI-assisted extraction call fails (a response that is not 200, an
  exception, or a body without \<open>recommendations\<close>), \<open>extract_menu_items_from_content\<close> returns
  what \<open>parse_menu_items_simple\<close> returns on the same content. When the poll has returned a
  result and the extraction of the document content yields nothing, the flow goes on with
  the first three of the hardcoded common dishes as the selected menu items.
\<close>

theorem extraction_fallbacks:
  "(\<not> ai_call_succeeds
        (B (length (requests s))
           (Post_get_recommendations (cp ''Extract menu items from: '' @ content), get_headers s))
    \<longrightarrow> fst (extract_menu_items_from_content U B content s) = parse_menu_items_simple U content)
   \<and> (truthy final_result
      \<and> py_and (fst (extract_menu_from_job B job_id s))
               (py_get (fst (extract_menu_from_job B job_id s)) (cp ''document_content'') JNull)
          = Inr document_content
      \<and> \<not> truthy document_content
    \<longrightarrow> fst (use_final_result U B job_id file_key final_result s) = Next
        \<and> selected_menu_items (snd (use_final_result U B job_id file_key final_result s))
          = [cp ''Chicken Rice'', cp ''Laksa'', cp ''Char Kway Teow''])"
proof (intro conjI impI)
  assume "\<not> ai_call_succeeds
        (B (length (requests s))
           (Post_get_recommendations (cp ''Extract menu items from: '' @ content), get_headers s))"
  then show "fst (extract_menu_items_from_content U B content s) = parse_menu_items_simple U content"
    by (auto simp: extract_menu_items_from_content_def send_def ai_call_succeeds_iff
             split: http_reply.splits option.splits sum.splits)
next
  assume a: "truthy final_result
      \<and> py_and (fst (extract_menu_from_job B job_id s))
               (py_get (fst (extract_menu_from_job B job_id s)) (cp ''document_content'') JNull)
          = Inr document_content
      \<and> \<not> truthy document_content"
  obtain er s1 where e: "extract_menu_from_job B job_id s = (er, s1)"
    by (cases "extract_menu_from_job B job_id s")
  from a e have u: "use_final_result U B job_id file_key final_result s
      = (Next, (report Failed_to_extract_content s1)\<lparr>selected_menu_items := take 3 common_dishes\<rparr>)"
    by (simp add: use_final_result_def)
  show "fst (use_final_result U B job_id file_key final_result s) = Next"
    using u by simp
  show "selected_menu_items (snd (use_final_result U B job_id file_key final_result s))
          = [cp ''Chicken Rice'', cp ''Laksa'', cp ''Char Kway Teow'']"
    using u by (simp add: common_dishes_def)
qed

text \<open>
  The theorem at a backend that answers 500 to every request.
\<close>

theorem extraction_fallbacks_witness:
  "fst (extract_menu_items_from_content ascii (scripted [] (Response 500 None))
          (cp ''Chicken Rice 9.90'' @ [10] @ cp ''Kaya Toast'') initial_state)
   = [cp ''Chicken Rice'', cp ''Kaya Toast'']
   \<and> selected_menu_items
        (snd (use_final_result ascii (scripted [] (Response 500 None)) job_1 (cp ''menu.pdf'', 1000)
                (JDict [(cp ''status'', JStr (cp ''completed''))]) initial_state))
     = [cp ''Chicken Rice'', cp ''Laksa'', cp ''Char Kway Teow'']"
proof -
  let ?B = "scripted [] (Response 500 None)"
  let ?c = "cp ''Chicken Rice 9.90'' @ [10] @ cp ''Kaya Toast''"
  have a: "\<not> ai_call_succeeds (?B (length (requests initial_state))
             (Post_get_recommendations (cp ''Extract menu items from: '' @ ?c),
              get_headers initial_state))"
    by (simp add: scripted_def)
  have p: "parse_menu_items_simple ascii ?c = [cp ''Chicken Rice'', cp ''Kaya Toast'']"
    by code_simp
  have t: "truthy (JDict [(cp ''status'', JStr (cp ''completed''))])" by simp
  have e: "py_and (fst (extract_menu_from_job ?B job_1 initial_state))
             (py_get (fst (extract_menu_from_job ?B job_1 initial_state)) (cp ''document_content'') JNull)
           = Inr JNull"
    by (simp add: extract_menu_from_job_def send_def scripted_def py_and_def)
  have n: "\<not> truthy JNull" by simp
  show ?thesis
    using extraction_fallbacks [of ?B initial_state ?c ascii
        "JDict [(cp ''status'', JStr (cp ''completed''))]" job_1 JNull "(cp ''menu.pdf'', 1000)"]
      a p t e n
    by simp
qed

text \<open>
  What \<open>main\<close> stores as the options of the menu after an extraction: the items with no
  two equal ignoring letter case, or the options that were there before.
\<close>

lemma extract_menu_from_job_options:
  "extracted_menu_options (snd (extract_menu_from_job B job_id s)) = extracted_menu_options s"
  by (auto simp: extract_menu_from_job_def send_def report_def
           split: http_reply.splits option.splits)

lemma extract_menu_items_options:
  "extracted_menu_options (snd (extract_menu_items_from_content U B content s))
   = extracted_menu_options s"
  by (auto simp: extract_menu_items_from_content_def send_def report_def
           split: http_reply.splits option.splits sum.splits)

lemma stored_options_distinct_ignoring_case:
  "extracted_menu_options (snd (use_final_result U B job_id file_key final_result s))
     = extracted_menu_options s
   \<or> distinct (map (u_lower U)
        (extracted_menu_options (snd (use_final_result U B job_id file_key final_result s))))"
proof -
  obtain er s1 where e: "extract_menu_from_job B job_id s = (er, s1)"
    by (cases "extract_menu_from_job B job_id s")
  have o1: "extracted_menu_options s1 = extracted_menu_options s"
    using extract_menu_from_job_options [of B job_id s] e by simp
  have u: "\<And>xs. distinct (map (u_lower U) (unique_options U xs [] []))"
    by (rule unique_options_ci) simp_all
  have o2: "\<And>content items s2. extract_menu_items_from_content U B content s1 = (items, s2)
              \<Longrightarrow> extracted_menu_options s2 = extracted_menu_options s"
    using extract_menu_items_options [of U B _ s1] o1 by (metis snd_conv)
  show ?thesis
    using e o1 o2 u
    by (auto simp: use_final_result_def store_options_def report_def
             split: sum.splits json.splits prod.splits)
qed

text \<open>
  A whole run of \<open>main\<close> in which the extraction of the document content fails: the run
  ends normally, and its last request asks for the analysis of the three fallback dishes.
\<close>

lemma main_analyses_fallback_dishes:
  "map_option (\<lambda>(out, s'). (out, selected_menu_items s', last (requests s')))
     (main ascii extraction_fails uploaded_and_submitted validated_state)
   = Some (Finished,
           [cp ''Chicken Rice'', cp ''Laksa'', cp ''Char Kway Teow''],
           (Post_analyze_menu [cp ''Chicken Rice'', cp ''Laksa'', cp ''Char Kway Teow''] [] []
              (cp ''adult''),
            Headers (Some (cp ''fai_key''))))"
  by code_simp

end
